theory Spec2Isabelle
  imports Main "HOL-Library.Product_Lexorder"
begin

chapter \<open>A conversational calendar-booking agent\<close>

text \<open>
  A shallow embedding of the Python sources \<^verbatim>\<open>backend/calendar_utils.py\<close>,
  \<^verbatim>\<open>backend/agent.py\<close> and \<^verbatim>\<open>backend/main.py\<close>. The Slot State dictionary is a
  record, every \<^verbatim>\<open>raise\<close> is a value of the sum type \<open>exn + 'a\<close>, the external
  collaborators (language-model provider, calendar service, clock) are fields of an
  environment record, and every call to the calendar service is appended to a call log
  returned next to the result.
\<close>

section \<open>Exceptions\<close>

datatype exn =
    ValueError string
  | OverflowError string
  | TypeError string
  | RuntimeError string
  | ServiceError string

text \<open>\<^verbatim>\<open>str(e)\<close>, as interpolated by the \<^verbatim>\<open>f"...{e}"\<close> strings of the source.\<close>

fun exn_str :: "exn \<Rightarrow> string" where
  "exn_str (ValueError m) = m"
| "exn_str (OverflowError m) = m"
| "exn_str (TypeError m) = m"
| "exn_str (RuntimeError m) = m"
| "exn_str (ServiceError m) = m"

section \<open>Time\<close>

text \<open>
  A timezone-aware \<^verbatim>\<open>datetime\<close> is the number of microseconds since
  0001-01-01T00:00:00 UTC; comparison of aware datetimes is comparison of these
  instants. \<^verbatim>\<open>datetime\<close> covers the ordinals \<open>1 .. 3652059\<close> (years 1 to 9999):
  arithmetic that leaves this range raises \<^verbatim>\<open>OverflowError\<close>.
\<close>

type_synonym instant = int

definition MINUTE :: int where "MINUTE = 60000000"
definition HOUR :: int where "HOUR = 60 * MINUTE"
definition DAY :: int where "DAY = 24 * HOUR"
definition MAXORDINAL :: int where "MAXORDINAL = 3652059"

text \<open>\<^verbatim>\<open>timedelta(minutes=m)\<close>: the day count of a timedelta is limited to nine digits.\<close>

definition timedelta_minutes :: "int \<Rightarrow> exn + int" where
  "timedelta_minutes m =
     (let us = m * MINUTE in
      if \<bar>us div DAY\<bar> > 999999999
      then Inl (OverflowError ''days must have magnitude <= 999999999'')
      else Inr us)"

text \<open>\<^verbatim>\<open>dt + delta\<close> for a datetime and a timedelta (in microseconds).\<close>

definition dt_add :: "instant \<Rightarrow> int \<Rightarrow> exn + instant" where
  "dt_add t delta =
     (let r = t + delta in
      if 0 \<le> r \<and> r < MAXORDINAL * DAY then Inr r
      else Inl (OverflowError ''date value out of range''))"

text \<open>\<^verbatim>\<open>dt.replace(hour=h, minute=0, second=0, microsecond=0)\<close>.\<close>

definition replace_hour :: "instant \<Rightarrow> int \<Rightarrow> exn + instant" where
  "replace_hour t h =
     (if 0 \<le> h \<and> h \<le> 23 then Inr ((t div DAY) * DAY + h * HOUR)
      else Inl (ValueError ''hour must be in 0..23''))"

text \<open>The minute of the day, from 0 to 1439, that a clock shows at an instant.\<close>

definition minute_of_day :: "instant \<Rightarrow> int" where
  "minute_of_day t = (t mod DAY) div MINUTE"

section \<open>Text helpers\<close>

definition digit_chars :: string where
  "digit_chars = ''0123456789''"

text \<open>
  A string is a list of code points below 256. On these, \<^verbatim>\<open>\d\<close> of \<^verbatim>\<open>re\<close> matches the
  ten decimal digits; \<^verbatim>\<open>\s\<close>, like \<^verbatim>\<open>str.strip\<close> and \<^verbatim>\<open>int\<close>, takes for a blank the
  space, the controls 09 to 0D and 1C to 1F, the next-line control 85 and the
  no-break space A0; \<^verbatim>\<open>\w\<close> matches the underscore and every alphanumeric code
  point, among them the letters and numeric signs of the upper half.
\<close>

definition space_chars :: string where
  "space_chars = [CHR '' '', CHR 0x09, CHR 0x0A, CHR 0x0B, CHR 0x0C, CHR 0x0D,
                  CHR 0x1C, CHR 0x1D, CHR 0x1E, CHR 0x1F, CHR 0x85, CHR 0xA0]"

definition latin_word_chars :: string where
  "latin_word_chars =
     [CHR 0xAA, CHR 0xB2, CHR 0xB3, CHR 0xB5, CHR 0xB9, CHR 0xBA, CHR 0xBC, CHR 0xBD,
      CHR 0xBE, CHR 0xC0, CHR 0xC1, CHR 0xC2, CHR 0xC3, CHR 0xC4, CHR 0xC5, CHR 0xC6,
      CHR 0xC7, CHR 0xC8, CHR 0xC9, CHR 0xCA, CHR 0xCB, CHR 0xCC, CHR 0xCD, CHR 0xCE,
      CHR 0xCF, CHR 0xD0, CHR 0xD1, CHR 0xD2, CHR 0xD3, CHR 0xD4, CHR 0xD5, CHR 0xD6,
      CHR 0xD8, CHR 0xD9, CHR 0xDA, CHR 0xDB, CHR 0xDC, CHR 0xDD, CHR 0xDE, CHR 0xDF,
      CHR 0xE0, CHR 0xE1, CHR 0xE2, CHR 0xE3, CHR 0xE4, CHR 0xE5, CHR 0xE6, CHR 0xE7,
      CHR 0xE8, CHR 0xE9, CHR 0xEA, CHR 0xEB, CHR 0xEC, CHR 0xED, CHR 0xEE, CHR 0xEF,
      CHR 0xF0, CHR 0xF1, CHR 0xF2, CHR 0xF3, CHR 0xF4, CHR 0xF5, CHR 0xF6, CHR 0xF8,
      CHR 0xF9, CHR 0xFA, CHR 0xFB, CHR 0xFC, CHR 0xFD, CHR 0xFE, CHR 0xFF]"

definition word_chars :: string where
  "word_chars = ''abcdefghijklmnopqrstuvwxyzABCDEFGHIJKLMNOPQRSTUVWXYZ0123456789_''
                @ latin_word_chars"

text \<open>Decimal rendering of a natural number, and the \<^verbatim>\<open>{n:02d}\<close> format.\<close>

fun dec_str :: "nat \<Rightarrow> string" where
  "dec_str n =
     (if n < 10 then [digit_chars ! n]
      else dec_str (n div 10) @ [digit_chars ! (n mod 10)])"

definition fmt02d :: "int \<Rightarrow> string" where
  "fmt02d n =
     (if n < 0 then CHR ''-'' # dec_str (nat (- n))
      else if n < 10 then CHR ''0'' # dec_str (nat n)
      else dec_str (nat n))"

text \<open>\<^verbatim>\<open>sep.join(xs)\<close>.\<close>

fun join :: "string \<Rightarrow> string list \<Rightarrow> string" where
  "join sep [] = []"
| "join sep [x] = x"
| "join sep (x # y # ys) = x @ sep @ join sep (y # ys)"

text \<open>\<^verbatim>\<open>str(v)\<close> of a value that is a string or \<^verbatim>\<open>None\<close>, as an f-string renders it.\<close>

definition py_str :: "string option \<Rightarrow> string" where
  "py_str v = (case v of None \<Rightarrow> ''None'' | Some s \<Rightarrow> s)"

text \<open>Truthiness of an optional string and of an optional list.\<close>

definition truthy :: "'a list option \<Rightarrow> bool" where
  "truthy v = (case v of None \<Rightarrow> False | Some s \<Rightarrow> s \<noteq> [])"

text \<open>\<^verbatim>\<open>dt.strftime("%H:%M")\<close> of a UTC instant.\<close>

definition strftime_HM :: "instant \<Rightarrow> string" where
  "strftime_HM t =
     fmt02d ((t mod DAY) div HOUR) @ '':'' @ fmt02d (((t mod DAY) mod HOUR) div MINUTE)"

section \<open>The calendar service and \<^verbatim>\<open>calendar_utils.py\<close>\<close>

text \<open>
  An event resource as returned by the service: a missing key is \<open>None\<close>.
\<close>

record event =
  ev_summary :: "string option"
  ev_dateTime :: "string option"
  ev_date :: "string option"
  ev_htmlLink :: "string option"

text \<open>The request body that \<^verbatim>\<open>book_event\<close> builds.\<close>

record event_body =
  eb_summary :: "string option"
  eb_start :: instant
  eb_start_timeZone :: string
  eb_end :: instant
  eb_end_timeZone :: string
  eb_description :: "string option"
  eb_attendees :: "string list option"

text \<open>
  One entry of the free/busy answer: the pair of its \<^verbatim>\<open>start\<close> and \<^verbatim>\<open>end\<close> once
  \<^verbatim>\<open>datetime.fromisoformat\<close> has read them, or the exception that reading raises.
\<close>

type_synonym busy_entry = "exn + instant \<times> instant"

datatype call =
    FreeBusyQuery "string option" instant instant
  | EventsInsert "string option" event_body
  | EventsList "string option" instant int

fun is_insert :: "call \<Rightarrow> bool" where
  "is_insert (EventsInsert c b) = True"
| "is_insert _ = False"

text \<open>A chat message of the transcript; the content of an assistant turn may be \<^verbatim>\<open>None\<close>.\<close>

record msg =
  role :: string
  content :: "string option"

text \<open>
  The decoded answer of the language-model provider: a dictionary whose values are
  strings or JSON \<^verbatim>\<open>null\<close> (\<open>Some None\<close>); a missing key is \<open>None\<close>.
\<close>

type_synonym gemini_result = "string \<rightharpoonup> string option"

text \<open>
  The environment of a turn. \<open>gemini\<close> is \<^verbatim>\<open>gemini_conversational_reply\<close> as a whole
  (prompt, provider call, clean-up and \<^verbatim>\<open>json.loads\<close>): it returns the decoded
  dictionary or the exception it raises. \<open>credentials\<close> is the outcome of
  \<^verbatim>\<open>authenticate_google_calendar()\<close>: \<open>None\<close> when the service client is built.
  The three service functions answer the requests of the calendar API.
\<close>

record env =
  gemini :: "msg list \<Rightarrow> exn + gemini_result"
  now :: instant
  credentials :: "exn option"
  freebusy_query :: "string option \<Rightarrow> instant \<Rightarrow> instant \<Rightarrow> exn + busy_entry list"
  events_insert :: "string option \<Rightarrow> event_body \<Rightarrow> exn + event"
  events_list :: "string option \<Rightarrow> instant \<Rightarrow> int \<Rightarrow> exn + event list"

definition authenticate_google_calendar :: "env \<Rightarrow> exn + unit" where
  "authenticate_google_calendar E =
     (case credentials E of None \<Rightarrow> Inr () | Some e \<Rightarrow> Inl e)"

definition check_availability ::
  "env \<Rightarrow> string option \<Rightarrow> instant \<Rightarrow> instant \<Rightarrow> (exn + bool) \<times> call list" where
  "check_availability E calendar_id start end =
     (case freebusy_query E calendar_id start end of
        Inl e \<Rightarrow> (Inl e, [FreeBusyQuery calendar_id start end])
      | Inr busy_times \<Rightarrow> (Inr (length busy_times = 0), [FreeBusyQuery calendar_id start end]))"

definition book_event ::
  "env \<Rightarrow> string option \<Rightarrow> instant \<Rightarrow> instant \<Rightarrow> string option \<Rightarrow> string option
     \<Rightarrow> string list option \<Rightarrow> (exn + event) \<times> call list" where
  "book_event E calendar_id start end summary description attendees =
     (let body = \<lparr>eb_summary = summary,
                  eb_start = start, eb_start_timeZone = ''UTC'',
                  eb_end = end, eb_end_timeZone = ''UTC'',
                  eb_description = (if truthy description then description else None),
                  eb_attendees = (if truthy attendees then attendees else None)\<rparr>
      in (events_insert E calendar_id body, [EventsInsert calendar_id body]))"

definition list_upcoming_events ::
  "env \<Rightarrow> string option \<Rightarrow> int \<Rightarrow> (exn + event list) \<times> call list" where
  "list_upcoming_events E calendar_id max_results =
     (events_list E calendar_id (now E) max_results,
      [EventsList calendar_id (now E) max_results])"

subsection \<open>The availability planner\<close>

text \<open>The overlap test of the sweep: \<^verbatim>\<open>current < b_end and next_slot_end > b_start\<close>.\<close>

definition overlaps :: "instant \<Rightarrow> instant \<Rightarrow> instant \<times> instant \<Rightarrow> bool" where
  "overlaps current next_slot_end b = (current < snd b \<and> next_slot_end > fst b)"

text \<open>
  The \<^verbatim>\<open>while\<close> loop of \<^verbatim>\<open>suggest_free_slots\<close>. \<open>delta\<close> is the value of
  \<^verbatim>\<open>timedelta(minutes=slot_duration_minutes)\<close>, the same in every iteration. The inner
  \<^verbatim>\<open>for\<close> loop stops at the first busy interval, in sorted order, that overlaps the
  candidate slot, and moves the cursor to the end of that interval.
\<close>

function sweep ::
  "(instant \<times> instant) list \<Rightarrow> instant \<Rightarrow> int \<Rightarrow> int \<Rightarrow> instant \<Rightarrow> instant list
     \<Rightarrow> exn + instant list" where
  "sweep intervals day_end delta max_suggestions current suggestions =
     (case dt_add current delta of
        Inl e \<Rightarrow> Inl e
      | Inr next_slot_end \<Rightarrow>
          if next_slot_end \<le> day_end \<and> int (length suggestions) < max_suggestions
          then (case find (overlaps current next_slot_end) intervals of
                  Some b \<Rightarrow> sweep intervals day_end delta max_suggestions (snd b) suggestions
                | None \<Rightarrow> sweep intervals day_end delta max_suggestions next_slot_end
                            (suggestions @ [current]))
          else Inr suggestions)"
  by pat_completeness auto
termination
  by (relation "measures [\<lambda>(ivs, de, dl, mx, cur, sg). nat (mx - int (length sg)),
                          \<lambda>(ivs, de, dl, mx, cur, sg). nat (de - dl - cur + 1)]")
     (auto simp: dt_add_def Let_def overlaps_def find_Some_iff split: if_splits)

declare sweep.simps [simp del]

text \<open>The list comprehension over \<^verbatim>\<open>busy_times\<close>: the first unreadable entry raises.\<close>

fun parse_intervals :: "busy_entry list \<Rightarrow> exn + (instant \<times> instant) list" where
  "parse_intervals [] = Inr []"
| "parse_intervals (Inl e # bs) = Inl e"
| "parse_intervals (Inr b # bs) =
     (case parse_intervals bs of Inl e \<Rightarrow> Inl e | Inr rest \<Rightarrow> Inr (b # rest))"

text \<open>
  Lines 84 to 102: read the busy intervals, sort them (tuples compare
  lexicographically) and sweep the window.
\<close>

definition free_slots ::
  "busy_entry list \<Rightarrow> instant \<Rightarrow> instant \<Rightarrow> int \<Rightarrow> int \<Rightarrow> exn + instant list" where
  "free_slots busy_times day_start day_end slot_duration_minutes max_suggestions =
     (case parse_intervals busy_times of
        Inl e \<Rightarrow> Inl e
      | Inr intervals \<Rightarrow>
          (case timedelta_minutes slot_duration_minutes of
             Inl e \<Rightarrow> Inl e
           | Inr delta \<Rightarrow> sweep (sort intervals) day_end delta max_suggestions day_start []))"

definition suggest_free_slots ::
  "env \<Rightarrow> string option \<Rightarrow> instant \<Rightarrow> int \<Rightarrow> int \<Rightarrow> int \<Rightarrow> int
     \<Rightarrow> (exn + instant list) \<times> call list" where
  "suggest_free_slots E calendar_id date slot_duration_minutes window_start_hour
       window_end_hour max_suggestions =
     (case replace_hour date window_start_hour of
        Inl e \<Rightarrow> (Inl e, [])
      | Inr day_start \<Rightarrow>
          (case replace_hour date window_end_hour of
             Inl e \<Rightarrow> (Inl e, [])
           | Inr day_end \<Rightarrow>
               (case freebusy_query E calendar_id day_start day_end of
                  Inl e \<Rightarrow> (Inl e, [FreeBusyQuery calendar_id day_start day_end])
                | Inr busy_times \<Rightarrow>
                    (free_slots busy_times day_start day_end slot_duration_minutes
                       max_suggestions,
                     [FreeBusyQuery calendar_id day_start day_end]))))"

section \<open>Regular expressions\<close>

text \<open>
  The fragment of Python's \<^verbatim>\<open>re\<close> that the source and \<^verbatim>\<open>datetime.strptime\<close> use, on
  the strings above: character classes, sequence, alternation, a greedy star over a
  character class, capturing groups and the word boundary \<^verbatim>\<open>\b\<close>. A backtracking
  matcher is a function to the list of its successes in the order in which the
  engine tries them (the left alternative first, the longest repetition first), so
  that the match Python reports is the head of the list.
\<close>

datatype rx =
    Cls string
  | Eps
  | Seq rx rx
  | Alt rx rx
  | StarCls string
  | Group nat rx
  | WordB

type_synonym caps = "(nat \<times> string) list"

definition is_word_at :: "string \<Rightarrow> nat \<Rightarrow> bool" where
  "is_word_at s i = (i < length s \<and> s ! i \<in> set word_chars)"

definition word_boundary :: "string \<Rightarrow> nat \<Rightarrow> bool" where
  "word_boundary s i = ((0 < i \<and> is_word_at s (i - 1)) \<noteq> is_word_at s i)"

fun rmatch :: "rx \<Rightarrow> string \<Rightarrow> nat \<Rightarrow> caps \<Rightarrow> (nat \<times> caps) list" where
  "rmatch (Cls cs) s i g = (if i < length s \<and> s ! i \<in> set cs then [(Suc i, g)] else [])"
| "rmatch Eps s i g = [(i, g)]"
| "rmatch (Seq a b) s i g = concat (map (\<lambda>(j, g'). rmatch b s j g') (rmatch a s i g))"
| "rmatch (Alt a b) s i g = rmatch a s i g @ rmatch b s i g"
| "rmatch (StarCls cs) s i g =
     map (\<lambda>k. (i + k, g)) (rev [0..<Suc (length (takeWhile (\<lambda>c. c \<in> set cs) (drop i s)))])"
| "rmatch (Group n r) s i g =
     map (\<lambda>(j, g'). (j, (n, take (j - i) (drop i s)) # g')) (rmatch r s i g)"
| "rmatch WordB s i g = (if word_boundary s i then [(i, g)] else [])"

fun ngroups :: "rx \<Rightarrow> nat" where
  "ngroups (Seq a b) = ngroups a + ngroups b"
| "ngroups (Alt a b) = ngroups a + ngroups b"
| "ngroups (Group n r) = Suc (ngroups r)"
| "ngroups _ = 0"

text \<open>\<^verbatim>\<open>match.groups()\<close>: one entry per group, \<open>None\<close> for a group that took no part.\<close>

definition groups_of :: "rx \<Rightarrow> caps \<Rightarrow> string option list" where
  "groups_of r g = map (map_of g) [1..<Suc (ngroups r)]"

text \<open>\<^verbatim>\<open>re.search\<close>: the leftmost start position with a match.\<close>

fun search_from :: "rx \<Rightarrow> string \<Rightarrow> nat \<Rightarrow> nat \<Rightarrow> string option list option" where
  "search_from r s i 0 = None"
| "search_from r s i (Suc n) =
     (case rmatch r s i [] of
        (j, g) # _ \<Rightarrow> Some (groups_of r g)
      | [] \<Rightarrow> search_from r s (Suc i) n)"

definition re_search :: "rx \<Rightarrow> string \<Rightarrow> string option list option" where
  "re_search r s = search_from r s 0 (Suc (length s))"

text \<open>\<^verbatim>\<open>pattern.match\<close>: a match at position 0, with its end and captures.\<close>

definition re_match :: "rx \<Rightarrow> string \<Rightarrow> (nat \<times> caps) option" where
  "re_match r s = (case rmatch r s 0 [] of [] \<Rightarrow> None | m # _ \<Rightarrow> Some m)"

fun lit :: "string \<Rightarrow> rx" where
  "lit [] = Eps"
| "lit [c] = Cls [c]"
| "lit (c # cs) = Seq (Cls [c]) (lit cs)"

definition rx_seq :: "rx list \<Rightarrow> rx" where
  "rx_seq rs = foldr Seq rs Eps"

definition rx_alt :: "rx list \<Rightarrow> rx" where
  "rx_alt rs = foldr Alt (butlast rs) (last rs)"

section \<open>Strings and integers of Python\<close>

definition latin_upper_chars :: string where
  "latin_upper_chars =
     [CHR 0xC0, CHR 0xC1, CHR 0xC2, CHR 0xC3, CHR 0xC4, CHR 0xC5, CHR 0xC6, CHR 0xC7,
      CHR 0xC8, CHR 0xC9, CHR 0xCA, CHR 0xCB, CHR 0xCC, CHR 0xCD, CHR 0xCE, CHR 0xCF,
      CHR 0xD0, CHR 0xD1, CHR 0xD2, CHR 0xD3, CHR 0xD4, CHR 0xD5, CHR 0xD6, CHR 0xD8,
      CHR 0xD9, CHR 0xDA, CHR 0xDB, CHR 0xDC, CHR 0xDD, CHR 0xDE]"

definition latin_lower_chars :: string where
  "latin_lower_chars =
     [CHR 0xE0, CHR 0xE1, CHR 0xE2, CHR 0xE3, CHR 0xE4, CHR 0xE5, CHR 0xE6, CHR 0xE7,
      CHR 0xE8, CHR 0xE9, CHR 0xEA, CHR 0xEB, CHR 0xEC, CHR 0xED, CHR 0xEE, CHR 0xEF,
      CHR 0xF0, CHR 0xF1, CHR 0xF2, CHR 0xF3, CHR 0xF4, CHR 0xF5, CHR 0xF6, CHR 0xF8,
      CHR 0xF9, CHR 0xFA, CHR 0xFB, CHR 0xFC, CHR 0xFD, CHR 0xFE]"

definition upper_chars :: string where
  "upper_chars = ''ABCDEFGHIJKLMNOPQRSTUVWXYZ'' @ latin_upper_chars"

definition lower_chars :: string where
  "lower_chars = ''abcdefghijklmnopqrstuvwxyz'' @ latin_lower_chars"

text \<open>
  \<^verbatim>\<open>s.lower()\<close> on code points below 256, and \<^verbatim>\<open>s.upper()\<close>, which the source applies
  to the matched marker \<^verbatim>\<open>am\<close>, \<^verbatim>\<open>pm\<close>, \<^verbatim>\<open>AM\<close> or \<^verbatim>\<open>PM\<close> only (the three code
  points B5, DF and FF, whose upper case is not a single code point below 256, do
  not occur there).
\<close>

definition lower :: "string \<Rightarrow> string" where
  "lower s = map (\<lambda>c. case map_of (zip upper_chars lower_chars) c of Some l \<Rightarrow> l | None \<Rightarrow> c) s"

definition upper :: "string \<Rightarrow> string" where
  "upper s = map (\<lambda>c. case map_of (zip lower_chars upper_chars) c of Some u \<Rightarrow> u | None \<Rightarrow> c) s"

text \<open>\<^verbatim>\<open>w in s\<close> for strings.\<close>

fun contains :: "string \<Rightarrow> string \<Rightarrow> bool" where
  "contains w [] = (w = [])"
| "contains w (c # cs) = (take (length w) (c # cs) = w \<or> contains w cs)"

definition strip :: "string \<Rightarrow> string" where
  "strip s = rev (dropWhile (\<lambda>c. c \<in> set space_chars)
                   (rev (dropWhile (\<lambda>c. c \<in> set space_chars) s)))"

definition digit_val :: "char \<Rightarrow> int" where
  "digit_val c = int (length (takeWhile (\<lambda>x. x \<noteq> c) digit_chars))"

definition digits_val :: "string \<Rightarrow> int" where
  "digits_val s = foldl (\<lambda>a c. 10 * a + digit_val c) 0 s"

text \<open>
  \<^verbatim>\<open>int(v)\<close> for a regex group: \<^verbatim>\<open>None\<close> is a \<^verbatim>\<open>TypeError\<close>; a string is stripped of
  blanks and must then be a non-empty run of decimal digits (the groups of this
  program hold digits, blanks or letters, never a sign or an underscore).
\<close>

definition py_int :: "string option \<Rightarrow> exn + int" where
  "py_int v =
     (case v of
        None \<Rightarrow> Inl (TypeError ''int() argument must be a string or a number, not NoneType'')
      | Some s \<Rightarrow>
          (let t = strip s in
           if t \<noteq> [] \<and> list_all (\<lambda>c. c \<in> set digit_chars) t then Inr (digits_val t)
           else Inl (ValueError (''invalid literal for int() with base 10: '' @ [CHR 0x27] @ s @ [CHR 0x27]))))"

section \<open>Calendar arithmetic and \<^verbatim>\<open>strptime\<close>\<close>

definition is_leap :: "int \<Rightarrow> bool" where
  "is_leap y = (y mod 4 = 0 \<and> (y mod 100 \<noteq> 0 \<or> y mod 400 = 0))"

definition DAYS_IN_MONTH :: "int list" where
  "DAYS_IN_MONTH = [-1, 31, 28, 31, 30, 31, 30, 31, 31, 30, 31, 30, 31]"

definition DAYS_BEFORE_MONTH :: "int list" where
  "DAYS_BEFORE_MONTH = [-1, 0, 31, 59, 90, 120, 151, 181, 212, 243, 273, 304, 334]"

definition days_before_year :: "int \<Rightarrow> int" where
  "days_before_year year =
     (let y = year - 1 in y * 365 + y div 4 - y div 100 + y div 400)"

text \<open>Both are called with \<open>1 \<le> month \<le> 12\<close> only.\<close>

definition days_in_month :: "int \<Rightarrow> int \<Rightarrow> int" where
  "days_in_month year month =
     (if month = 2 \<and> is_leap year then 29 else DAYS_IN_MONTH ! nat month)"

definition days_before_month :: "int \<Rightarrow> int \<Rightarrow> int" where
  "days_before_month year month =
     DAYS_BEFORE_MONTH ! nat month + (if month > 2 \<and> is_leap year then 1 else 0)"

definition ymd2ord :: "int \<Rightarrow> int \<Rightarrow> int \<Rightarrow> int" where
  "ymd2ord year month day = days_before_year year + days_before_month year month + day"

text \<open>The inverse, as \<^verbatim>\<open>datetime._ord2ymd\<close> computes it.\<close>

definition ord2ymd :: "int \<Rightarrow> int \<times> int \<times> int" where
  "ord2ymd ordinal =
     (let n0 = ordinal - 1;
          n400 = n0 div 146097; n1' = n0 mod 146097;
          n100 = n1' div 36524; n2' = n1' mod 36524;
          n4 = n2' div 1461; n3' = n2' mod 1461;
          n1 = n3' div 365; n = n3' mod 365;
          year = n400 * 400 + 1 + n100 * 100 + n4 * 4 + n1
      in if n1 = 4 \<or> n100 = 4 then (year - 1, 12, 31)
         else
           (let leapyear = (n1 = 3 \<and> (n4 \<noteq> 24 \<or> n100 = 3));
                month = (n + 50) div 32;
                preceding = DAYS_BEFORE_MONTH ! nat month
                            + (if month > 2 \<and> leapyear then 1 else 0)
            in if preceding > n
               then (let month' = month - 1;
                         preceding' = preceding
                            - (DAYS_IN_MONTH ! nat month'
                               + (if month' = 2 \<and> leapyear then 1 else 0))
                     in (year, month', n - preceding' + 1))
               else (year, month, n - preceding + 1)))"

text \<open>\<^verbatim>\<open>dt.strftime("%Y-%m-%d")\<close> (the year is not padded, as with glibc).\<close>

definition strftime_Ymd :: "instant \<Rightarrow> string" where
  "strftime_Ymd t =
     (case ord2ymd (t div DAY + 1) of
        (y, m, dd) \<Rightarrow> dec_str (nat y) @ ''-'' @ fmt02d m @ ''-'' @ fmt02d dd)"

text \<open>
  The directives of the two formats of the source, \<^verbatim>\<open>"%Y-%m-%d"\<close> and
  \<^verbatim>\<open>"%Y-%m-%d %H:%M"\<close>, with the regular expression that \<^verbatim>\<open>_strptime\<close> compiles
  for each: \<^verbatim>\<open>%Y\<close> is \<^verbatim>\<open>\d\d\d\d\<close>, \<^verbatim>\<open>%m\<close> is \<^verbatim>\<open>1[0-2]|0[1-9]|[1-9]\<close>, \<^verbatim>\<open>%d\<close> is
  \<^verbatim>\<open>3[0-1]|[1-2]\d|0[1-9]|[1-9]| [1-9]\<close>, \<^verbatim>\<open>%H\<close> is \<^verbatim>\<open>2[0-3]|[0-1]\d|\d\<close>, \<^verbatim>\<open>%M\<close> is
  \<^verbatim>\<open>[0-5]\d|\d\<close>, and a blank of the format is \<^verbatim>\<open>\s+\<close>. The groups Y, m, d, H, M are
  numbered 1 to 5.
\<close>

datatype directive = DirY | Dirm | Dird | DirH | DirM | DirLit char | DirSpace

definition dg :: rx where "dg = Cls digit_chars"

fun directive_rx :: "directive \<Rightarrow> rx" where
  "directive_rx DirY = Group 1 (rx_seq [dg, dg, dg, dg])"
| "directive_rx Dirm =
     Group 2 (rx_alt [Seq (Cls ''1'') (Cls ''012''), Seq (Cls ''0'') (Cls ''123456789''),
                      Cls ''123456789''])"
| "directive_rx Dird =
     Group 3 (rx_alt [Seq (Cls ''3'') (Cls ''01''), Seq (Cls ''12'') dg,
                      Seq (Cls ''0'') (Cls ''123456789''), Cls ''123456789'',
                      Seq (Cls '' '') (Cls ''123456789'')])"
| "directive_rx DirH =
     Group 4 (rx_alt [Seq (Cls ''2'') (Cls ''0123''), Seq (Cls ''01'') dg, dg])"
| "directive_rx DirM = Group 5 (rx_alt [Seq (Cls ''012345'') dg, dg])"
| "directive_rx (DirLit c) = Cls [c]"
| "directive_rx DirSpace = Seq (Cls space_chars) (StarCls space_chars)"

definition FMT_DATE :: "directive list" where
  "FMT_DATE = [DirY, DirLit CHR ''-'', Dirm, DirLit CHR ''-'', Dird]"

definition FMT_DATE_TIME :: "directive list" where
  "FMT_DATE_TIME = FMT_DATE @ [DirSpace, DirH, DirLit CHR '':'', DirM]"

definition field :: "caps \<Rightarrow> nat \<Rightarrow> int \<Rightarrow> int" where
  "field g n dflt = (case map_of g n of None \<Rightarrow> dflt | Some s \<Rightarrow> digits_val (strip s))"

text \<open>
  \<^verbatim>\<open>datetime.strptime(s, fmt).replace(tzinfo=timezone.utc)\<close>: the instant, or the
  \<^verbatim>\<open>ValueError\<close> of a text that does not match, of text left over, or of a date
  that does not exist.
\<close>

definition strptime :: "directive list \<Rightarrow> string \<Rightarrow> exn + instant" where
  "strptime fmt s =
     (case re_match (rx_seq (map directive_rx fmt)) s of
        None \<Rightarrow> Inl (ValueError (''time data '' @ [CHR 0x27] @ s @ [CHR 0x27]
                                   @ '' does not match format''))
      | Some (j, g) \<Rightarrow>
          if j \<noteq> length s
          then Inl (ValueError (''unconverted data remains: '' @ drop j s))
          else
            (let year = field g 1 1900; month = field g 2 1; day = field g 3 1;
                 hour = field g 4 0; minute = field g 5 0
             in if year < 1 then Inl (ValueError ''year 0 is out of range'')
                else if day > days_in_month year month
                then Inl (ValueError ''day is out of range for month'')
                else Inr ((ymd2ord year month day - 1) * DAY + hour * HOUR + minute * MINUTE)))"

section \<open>The regex fallback extractor of \<^verbatim>\<open>agent.py\<close>\<close>

record extraction =
  ex_intent :: string
  ex_date :: "string option"
  ex_time :: "string option"
  ex_summary :: "string option"

text \<open>
  The three patterns of \<^verbatim>\<open>time_patterns\<close>, in the order of the source:
  \<^verbatim>\<open>\b(\d{1,2}):(\d{2})\s*(am|pm|AM|PM)?\b\<close>, then \<^verbatim>\<open>\b(\d{1,2})\s*(am|pm|AM|PM)\b\<close>, then
  \<^verbatim>\<open>\b(\d{1,2}):(\d{2})\b\<close>. The greedy \<^verbatim>\<open>\d{1,2}\<close> tries two digits before one, an
  optional group tries to take part before it is skipped.
\<close>

definition d12 :: rx where "d12 = Alt (Seq dg dg) dg"

definition ampm_rx :: rx where
  "ampm_rx = rx_alt [lit ''am'', lit ''pm'', lit ''AM'', lit ''PM'']"

definition time_patterns :: "rx list" where
  "time_patterns =
    [rx_seq [WordB, Group 1 d12, lit '':'', Group 2 (Seq dg dg), StarCls space_chars,
             Alt (Group 3 ampm_rx) Eps, WordB],
     rx_seq [WordB, Group 1 d12, StarCls space_chars, Group 2 ampm_rx, WordB],
     rx_seq [WordB, Group 1 d12, lit '':'', Group 2 (Seq dg dg), WordB]]"

text \<open>\<^verbatim>\<open>match.group(k)\<close> on the tuple of groups.\<close>

definition group :: "string option list \<Rightarrow> nat \<Rightarrow> exn + string option" where
  "group gs k =
     (if 1 \<le> k \<and> k \<le> length gs then Inr (gs ! (k - 1))
      else Inl (ValueError ''no such group''))"

definition int_of_group :: "string option list \<Rightarrow> nat \<Rightarrow> exn + int" where
  "int_of_group gs k = (case group gs k of Inl e \<Rightarrow> Inl e | Inr v \<Rightarrow> py_int v)"

text \<open>
  The body of \<^verbatim>\<open>if match:\<close>. The first branch is taken when the pattern has at least
  three groups and the third took part; every other match, also one of the second
  pattern whose second group is the am/pm marker, goes through the \<^verbatim>\<open>else\<close> branch,
  which reads group 2 as the minute.
\<close>

definition time_of_match :: "string option list \<Rightarrow> exn + string" where
  "time_of_match gs =
     (if length gs \<ge> 3 \<and> truthy (gs ! 2)
      then (case int_of_group gs 1 of
              Inl e \<Rightarrow> Inl e
            | Inr hour \<Rightarrow>
                (case (if truthy (gs ! 1) then int_of_group gs 2 else Inr 0) of
                   Inl e \<Rightarrow> Inl e
                 | Inr minute \<Rightarrow>
                     (let ampm = upper (py_str (gs ! 2));
                          hour' = (if ampm = ''PM'' \<and> hour \<noteq> 12 then hour + 12
                                   else if ampm = ''AM'' \<and> hour = 12 then 0
                                   else hour)
                      in Inr (fmt02d hour' @ '':'' @ fmt02d minute))))
      else (case int_of_group gs 1 of
              Inl e \<Rightarrow> Inl e
            | Inr hour \<Rightarrow>
                (case (if length gs > 1 \<and> truthy (gs ! 1) then int_of_group gs 2 else Inr 0) of
                   Inl e \<Rightarrow> Inl e
                 | Inr minute \<Rightarrow> Inr (fmt02d hour @ '':'' @ fmt02d minute))))"

text \<open>The \<^verbatim>\<open>for pattern in time_patterns\<close> loop: the first pattern that matches decides.\<close>

fun extract_time :: "rx list \<Rightarrow> string \<Rightarrow> exn + string option" where
  "extract_time [] message = Inr None"
| "extract_time (pattern # rest) message =
     (case re_search pattern message of
        None \<Rightarrow> extract_time rest message
      | Some gs \<Rightarrow>
          (case time_of_match gs of Inl e \<Rightarrow> Inl e | Inr t \<Rightarrow> Inr (Some t)))"

definition any_word_in :: "string list \<Rightarrow> string \<Rightarrow> bool" where
  "any_word_in ws s = list_ex (\<lambda>w. contains w s) ws"

definition classify_intent :: "string \<Rightarrow> string" where
  "classify_intent message_lower =
     (if any_word_in [''book'', ''schedule'', ''reserve'', ''set up'', ''arrange''] message_lower
      then ''book''
      else if any_word_in [''free'', ''available'', ''busy'', ''slots'', ''check''] message_lower
      then ''check''
      else if any_word_in [''cancel'', ''delete'', ''remove''] message_lower
      then ''cancel''
      else ''unknown'')"

text \<open>
  \<^verbatim>\<open>fallback_extraction(message)\<close>; \<open>today\<close> is the value of \<^verbatim>\<open>datetime.now()\<close>.
\<close>

definition fallback_extraction :: "instant \<Rightarrow> string \<Rightarrow> exn + extraction" where
  "fallback_extraction today message =
     (let message_lower = lower message;
          intent0 = classify_intent message_lower
      in case extract_time time_patterns message of
           Inl e \<Rightarrow> Inl e
         | Inr time \<Rightarrow>
             if contains ''tomorrow'' message_lower
             then (case dt_add today DAY of
                     Inl e \<Rightarrow> Inl e
                   | Inr t \<Rightarrow> Inr \<lparr>ex_intent = intent0, ex_date = Some (strftime_Ymd t),
                                  ex_time = time, ex_summary = None\<rparr>)
             else if contains ''today'' message_lower
             then Inr \<lparr>ex_intent = intent0, ex_date = Some (strftime_Ymd today),
                       ex_time = time, ex_summary = None\<rparr>
             else Inr \<lparr>ex_intent = intent0, ex_date = None, ex_time = time,
                       ex_summary = None\<rparr>)"

section \<open>The Slot State and the three dialogue steps\<close>

text \<open>
  The dictionary of \<^verbatim>\<open>initial_state\<close>. A value that may be \<^verbatim>\<open>None\<close> is an option;
  \<open>history\<close> is \<open>None\<close> when the key is missing, as in the state that
  \<^verbatim>\<open>/new-session\<close> stores.
\<close>

record state =
  user_message :: string
  intent :: "string option"
  date :: "string option"
  start_time :: "string option"
  end_time :: "string option"
  availability :: "bool option"
  booking_confirmed :: bool
  response :: "string option"
  suggestions :: "string list"
  calendar_id :: "string option"
  summary :: "string option"
  description :: "string option"
  attendees :: "string list option"
  needs_more_info :: bool
  history :: "msg list option"

definition initial_state :: "string \<Rightarrow> state" where
  "initial_state message =
     \<lparr>user_message = message, intent = None, date = None, start_time = None,
      end_time = None, availability = None, booking_confirmed = False,
      response = Some [], suggestions = [],
      calendar_id = Some ''aryanrai97861@gmail.com'', summary = Some ''Meeting'',
      description = None, attendees = None, needs_more_info = False,
      history = Some [\<lparr>role = ''user'', content = Some message\<rparr>]\<rparr>"

text \<open>
  What a step hands back: the state it returns, or the exception it raises together
  with the state as the step left it (the dictionary is mutated in place, so the
  handler of \<^verbatim>\<open>run_agent\<close> sees the fields written before the \<^verbatim>\<open>raise\<close>).
\<close>

datatype outcome = Return state | Raise exn state

fun state_of :: "outcome \<Rightarrow> state" where
  "state_of (Return s) = s"
| "state_of (Raise e s) = s"

text \<open>\<^verbatim>\<open>d.get(k)\<close> and \<^verbatim>\<open>d.get(k, default)\<close> on the provider's dictionary.\<close>

definition dict_get :: "gemini_result \<Rightarrow> string \<Rightarrow> string option" where
  "dict_get r k = (case r k of None \<Rightarrow> None | Some v \<Rightarrow> v)"

definition dict_get_default :: "gemini_result \<Rightarrow> string \<Rightarrow> string \<Rightarrow> string option" where
  "dict_get_default r k dflt = (case r k of None \<Rightarrow> Some dflt | Some v \<Rightarrow> v)"

definition history_of :: "state \<Rightarrow> msg list" where
  "history_of s = (case history s of None \<Rightarrow> [] | Some h \<Rightarrow> h)"

definition LISTING_INTENTS :: "string list" where
  "LISTING_INTENTS = [''show_meetings'', ''show_appointments'', ''list_meetings'',
                      ''list_appointments'']"

definition event_line :: "event \<Rightarrow> string" where
  "event_line ev =
     ''- '' @ (case ev_summary ev of None \<Rightarrow> ''(No Title)'' | Some t \<Rightarrow> t)
     @ '' at '' @ py_str (case ev_dateTime ev of None \<Rightarrow> ev_date ev | Some t \<Rightarrow> Some t)
     @ '' [link]('' @ (case ev_htmlLink ev of None \<Rightarrow> [] | Some l \<Rightarrow> l) @ '')''"

text \<open>Lines 199 to 209: the provider's answer is merged into the state.\<close>

definition merge_reply :: "gemini_result \<Rightarrow> state \<Rightarrow> state" where
  "merge_reply g s =
     (let s1 = s\<lparr>response := dict_get_default g ''reply'' (''Sorry, I didn'' @ [CHR 0x27] @ ''t understand that.''),
                 intent := dict_get_default g ''intent'' ''unknown''\<rparr>;
          s2 = (if truthy (dict_get g ''date'') then s1\<lparr>date := dict_get g ''date''\<rparr> else s1);
          s3 = (if truthy (dict_get g ''time'') then s2\<lparr>start_time := dict_get g ''time''\<rparr>
                else s2);
          s4 = (if truthy (dict_get g ''summary'') then s3\<lparr>summary := dict_get g ''summary''\<rparr>
                else s3);
          s5 = (if truthy (dict_get g ''email'')
                then s4\<lparr>attendees := Some [py_str (dict_get g ''email'')]\<rparr> else s4)
      in s5\<lparr>history := Some (history_of s5 @ [\<lparr>role = ''assistant'', content = response s5\<rparr>])\<rparr>)"

text \<open>Lines 227 to 243: which information is still missing.\<close>

definition missing_info :: "state \<Rightarrow> state" where
  "missing_info s =
     (if intent s = Some ''book''
      then (if \<not> truthy (date s) then s\<lparr>needs_more_info := True\<rparr>
            else if \<not> truthy (start_time s) then s\<lparr>needs_more_info := True\<rparr>
            else if \<not> truthy (attendees s)
            then s\<lparr>response := Some ''What is your email address so I can send you the invite?'',
                   needs_more_info := True\<rparr>
            else s\<lparr>needs_more_info := False\<rparr>)
      else if intent s = Some ''check''
      then (if \<not> truthy (date s) then s\<lparr>needs_more_info := True\<rparr>
            else s\<lparr>needs_more_info := False\<rparr>)
      else s\<lparr>needs_more_info := True\<rparr>)"

definition conversational_node :: "env \<Rightarrow> state \<Rightarrow> outcome \<times> call list" where
  "conversational_node E s =
     (case gemini E (history_of s) of
        Inl e \<Rightarrow> (Raise e s, [])
      | Inr gemini_result \<Rightarrow>
          (let s' = merge_reply gemini_result s in
           if intent s' \<in> Some ` set LISTING_INTENTS
           then (case authenticate_google_calendar E of
                   Inl e \<Rightarrow> (Raise e s', [])
                 | Inr service \<Rightarrow>
                     (case list_upcoming_events E (calendar_id s') 5 of
                        (Inl e, calls) \<Rightarrow> (Raise e s', calls)
                      | (Inr events, calls) \<Rightarrow>
                          (Return (s'\<lparr>response :=
                                      Some (if events = []
                                            then ''You have no upcoming meetings or appointments.''
                                            else ''Here are your next meetings:'' @ [CHR 0x0A]
                                                 @ join [CHR 0x0A] (map event_line events)),
                                    needs_more_info := False\<rparr>),
                           calls)))
           else (Return (missing_info s'), [])))"

text \<open>Lines 250 to 268: the whole-day query of the \<^verbatim>\<open>check\<close> intent.\<close>

definition check_day :: "env \<Rightarrow> state \<Rightarrow> outcome \<times> call list" where
  "check_day E s =
     (if \<not> truthy (date s)
      then (Return (s\<lparr>response := Some ''Missing date for availability check.''\<rparr>), [])
      else
        (let date_str = py_str (date s) in
         case (case strptime FMT_DATE date_str of
                 Inl e \<Rightarrow> Inl e
               | Inr date_obj \<Rightarrow> replace_hour date_obj 9) of
           Inl e \<Rightarrow> (Return (s\<lparr>response := Some (''Could not parse date: '' @ exn_str e)\<rparr>), [])
         | Inr start_of_day \<Rightarrow>
             (case authenticate_google_calendar E of
                Inl e \<Rightarrow> (Raise e s, [])
              | Inr service \<Rightarrow>
                  (case suggest_free_slots E (calendar_id s) start_of_day 60 9 18 3 of
                     (Inl e, calls) \<Rightarrow> (Raise e s, calls)
                   | (Inr slots, calls) \<Rightarrow>
                       (Return (s\<lparr>response := Some
                          (if slots \<noteq> []
                           then ''Available slots on '' @ date_str @ '': ''
                                @ join '', '' (map strftime_HM slots)
                           else ''No free slots found on '' @ date_str @ ''.'')\<rparr>),
                        calls)))))"

text \<open>
  Lines 282 to 300: the \<^verbatim>\<open>try\<close> block that asks the calendar whether the slot is
  free. Every exception inside it becomes a response; \<open>availability\<close> is written
  only after \<^verbatim>\<open>check_availability\<close> has returned.
\<close>

definition query_slot ::
  "env \<Rightarrow> state \<Rightarrow> string \<Rightarrow> string \<Rightarrow> instant \<Rightarrow> instant \<Rightarrow> state \<times> call list" where
  "query_slot E s date_str time_str start_dt end_dt =
     (case authenticate_google_calendar E of
        Inl e \<Rightarrow> (s\<lparr>response := Some (''Error checking availability: '' @ exn_str e)\<rparr>, [])
      | Inr service \<Rightarrow>
          (case check_availability E (calendar_id s) start_dt end_dt of
             (Inl e, calls) \<Rightarrow>
               (s\<lparr>response := Some (''Error checking availability: '' @ exn_str e)\<rparr>, calls)
           | (Inr is_free, calls) \<Rightarrow>
               (let s1 = s\<lparr>availability := Some is_free\<rparr> in
                if is_free
                then (s1\<lparr>response := Some (''Great! The slot on '' @ date_str @ '' at ''
                          @ time_str @ '' is available. Shall I book it for you?'')\<rparr>, calls)
                else
                  (case suggest_free_slots E (calendar_id s1) start_dt 60 9 18 3 of
                     (Inl e, calls') \<Rightarrow>
                       (s1\<lparr>response := Some (''Error checking availability: '' @ exn_str e)\<rparr>,
                        calls @ calls')
                   | (Inr slots, calls') \<Rightarrow>
                       (if slots \<noteq> []
                        then s1\<lparr>response := Some (''Sorry, '' @ time_str @ '' on '' @ date_str
                                  @ '' is not available. How about: ''
                                  @ join '', '' (map strftime_HM (take 3 slots)) @ ''?''),
                                suggestions := map strftime_HM slots\<rparr>
                        else s1\<lparr>response := Some (''Sorry, '' @ time_str @ '' on '' @ date_str
                                  @ '' is not available, and no other slots are free that day.''),
                                suggestions := []\<rparr>,
                        calls @ calls')))))"

definition check_availability_node :: "env \<Rightarrow> state \<Rightarrow> outcome \<times> call list" where
  "check_availability_node E s =
     (if needs_more_info s then (Return s, [])
      else if intent s = Some ''check'' then check_day E s
      else if \<not> truthy (date s) \<or> \<not> truthy (start_time s)
      then (Return (s\<lparr>response := Some ''Missing date or time for availability check.''\<rparr>), [])
      else
        (let date_str = py_str (date s); time_str = py_str (start_time s) in
         case strptime FMT_DATE_TIME (date_str @ '' '' @ time_str) of
           Inl e \<Rightarrow>
             (Return (s\<lparr>response := Some (''Could not parse date/time: '' @ exn_str e)\<rparr>), [])
         | Inr start_dt \<Rightarrow>
             (case dt_add start_dt HOUR of
                Inl e \<Rightarrow>
                  (Return (s\<lparr>response := Some (''Could not parse date/time: '' @ exn_str e)\<rparr>),
                   [])
              | Inr end_dt \<Rightarrow>
                  (case query_slot E (s\<lparr>end_time := Some (strftime_HM end_dt)\<rparr>)
                          date_str time_str start_dt end_dt of
                     (s', calls) \<Rightarrow> (Return s', calls)))))"

definition booking_node :: "env \<Rightarrow> state \<Rightarrow> outcome \<times> call list" where
  "booking_node E s =
     (if availability s \<noteq> Some True
      then (Return (s\<lparr>response :=
              Some ''Cannot book: slot is not available or not checked yet.''\<rparr>), [])
      else if \<not> (truthy (date s) \<and> truthy (start_time s))
      then (Return (s\<lparr>response := Some ''Cannot book: missing date or time information.''\<rparr>), [])
      else
        (let date_str = py_str (date s); time_str = py_str (start_time s) in
         case (case strptime FMT_DATE_TIME (date_str @ '' '' @ time_str) of
                 Inl e \<Rightarrow> Inl e
               | Inr start_dt \<Rightarrow>
                   (case dt_add start_dt HOUR of
                      Inl e \<Rightarrow> Inl e
                    | Inr end_dt \<Rightarrow> Inr (start_dt, end_dt))) of
           Inl e \<Rightarrow>
             (Return (s\<lparr>response :=
                Some (''Could not parse date/time for booking: '' @ exn_str e)\<rparr>), [])
         | Inr (start_dt, end_dt) \<Rightarrow>
             (case authenticate_google_calendar E of
                Inl e \<Rightarrow> (Return (s\<lparr>response := Some (''Booking failed: '' @ exn_str e)\<rparr>), [])
              | Inr service \<Rightarrow>
                  (case book_event E (calendar_id s) start_dt end_dt (summary s)
                          (description s) (attendees s) of
                     (Inl e, calls) \<Rightarrow>
                       (Return (s\<lparr>response := Some (''Booking failed: '' @ exn_str e)\<rparr>), calls)
                   | (Inr ev, calls) \<Rightarrow>
                       (Return (s\<lparr>booking_confirmed := True,
                                  response := Some (''Perfect! Your '' @ [CHR 0x27]
                                    @ py_str (summary s) @ [CHR 0x27] @ '' is booked for ''
                                    @ date_str @ '' at '' @ time_str @ ''. Event link: ''
                                    @ (case ev_htmlLink ev of None \<Rightarrow> ''N/A'' | Some l \<Rightarrow> l))\<rparr>),
                        calls)))))"

section \<open>The graph and \<^verbatim>\<open>run_agent\<close>\<close>

datatype node = Conversational | CheckAvailability | Booking | END

text \<open>The two conditional edges of \<^verbatim>\<open>build_agent_graph\<close>.\<close>

definition route_conversational :: "state \<Rightarrow> node" where
  "route_conversational s =
     (if intent s \<in> {Some ''book'', Some ''check''} \<and> \<not> needs_more_info s
      then CheckAvailability else END)"

definition route_check_availability :: "state \<Rightarrow> node" where
  "route_check_availability s =
     (if availability s = Some True \<and> intent s = Some ''book'' then Booking else END)"

text \<open>
  \<^verbatim>\<open>agent.invoke(state)\<close>: the outcome, the nodes that ran, in order, and the calls
  made to the calendar service, in order.
\<close>

definition agent_invoke :: "env \<Rightarrow> state \<Rightarrow> outcome \<times> node list \<times> call list" where
  "agent_invoke E s =
     (case conversational_node E s of
        (Raise e s1, c1) \<Rightarrow> (Raise e s1, [Conversational], c1)
      | (Return s1, c1) \<Rightarrow>
          if route_conversational s1 = END then (Return s1, [Conversational], c1)
          else
            (case check_availability_node E s1 of
               (Raise e s2, c2) \<Rightarrow> (Raise e s2, [Conversational, CheckAvailability], c1 @ c2)
             | (Return s2, c2) \<Rightarrow>
                 if route_check_availability s2 = END
                 then (Return s2, [Conversational, CheckAvailability], c1 @ c2)
                 else
                   (case booking_node E s2 of
                      (out, c3) \<Rightarrow>
                        (out, [Conversational, CheckAvailability, Booking], c1 @ c2 @ c3))))"

text \<open>Lines 371 to 376 of \<^verbatim>\<open>run_agent\<close>: the state the graph is invoked on.\<close>

definition prepare_state :: "string \<Rightarrow> state option \<Rightarrow> state" where
  "prepare_state message st =
     (case st of
        None \<Rightarrow> initial_state message
      | Some s \<Rightarrow>
          s\<lparr>user_message := message,
            history := Some (history_of s @ [\<lparr>role = ''user'', content = Some message\<rparr>]),
            needs_more_info := False\<rparr>)"

definition run_agent_trace ::
  "env \<Rightarrow> string \<Rightarrow> state option \<Rightarrow> state \<times> node list \<times> call list" where
  "run_agent_trace E message st =
     (case agent_invoke E (prepare_state message st) of
        (Return result, visited, calls) \<Rightarrow> (result, visited, calls)
      | (Raise e s, visited, calls) \<Rightarrow>
          (s\<lparr>response := Some (''Sorry, I encountered an error: '' @ exn_str e)\<rparr>,
           visited, calls))"

definition run_agent :: "env \<Rightarrow> string \<Rightarrow> state option \<Rightarrow> state" where
  "run_agent E message st = fst (run_agent_trace E message st)"

section \<open>The front door of \<^verbatim>\<open>main.py\<close>\<close>

text \<open>
  The global dictionary \<^verbatim>\<open>sessions\<close> is passed in and returned. A key is a session
  identifier; \<^verbatim>\<open>None\<close> is a possible key, since \<^verbatim>\<open>session_id\<close> is an optional
  string of the request model.
\<close>

type_synonym sessions = "string option \<rightharpoonup> state"

datatype http_error = HTTPException nat string

text \<open>
  The JSON body of \<^verbatim>\<open>POST /chat\<close>: an optional field is \<open>None\<close> when the body omits
  it and \<open>Some None\<close> when the body gives \<^verbatim>\<open>null\<close>. \<^verbatim>\<open>ChatRequest\<close> fills an omitted
  field with its default.
\<close>

record chat_body =
  body_message :: string
  body_session_id :: "string option option"
  body_calendar_id :: "string option option"

record ChatRequest =
  req_message :: string
  req_session_id :: "string option"
  req_calendar_id :: "string option"

definition parse_ChatRequest :: "chat_body \<Rightarrow> ChatRequest" where
  "parse_ChatRequest b =
     \<lparr>req_message = body_message b,
      req_session_id = (case body_session_id b of None \<Rightarrow> Some ''default'' | Some v \<Rightarrow> v),
      req_calendar_id = (case body_calendar_id b of
                           None \<Rightarrow> Some ''aryanrai97861@gmail.com'' | Some v \<Rightarrow> v)\<rparr>"

record ChatResponse =
  res_response :: string
  res_date :: "string option"
  res_start_time :: "string option"
  res_end_time :: "string option"
  res_intent :: "string option"
  res_availability :: "bool option"
  res_booking_confirmed :: "bool option"
  res_suggestions :: "string list option"
  res_session_id :: string
  res_needs_more_info :: "bool option"

text \<open>
  \<^verbatim>\<open>chat_endpoint\<close>: the session is read or created, the agent runs, the result is
  stored, and the response model is built. \<^verbatim>\<open>response\<close> and \<^verbatim>\<open>session_id\<close> are
  required strings of \<^verbatim>\<open>ChatResponse\<close>: when one of them is \<^verbatim>\<open>None\<close> the validation
  error is caught by the handler and becomes a status 500, after the store was
  written.
\<close>

definition chat_endpoint ::
  "env \<Rightarrow> sessions \<Rightarrow> ChatRequest \<Rightarrow> (http_error + ChatResponse) \<times> sessions" where
  "chat_endpoint E sess request =
     (let session_id = req_session_id request;
          message = req_message request;
          st = (case sess session_id of
                  Some stored \<Rightarrow> stored
                | None \<Rightarrow> (initial_state message)\<lparr>calendar_id := req_calendar_id request\<rparr>);
          result = run_agent E message (Some st);
          sess' = sess(session_id \<mapsto> result)
      in (case (response result, session_id) of
            (Some text, Some sid) \<Rightarrow>
              Inr \<lparr>res_response = text, res_date = date result,
                   res_start_time = start_time result, res_end_time = end_time result,
                   res_intent = intent result, res_availability = availability result,
                   res_booking_confirmed = Some (booking_confirmed result),
                   res_suggestions = Some (suggestions result),
                   res_session_id = sid,
                   res_needs_more_info = Some (needs_more_info result)\<rparr>
          | _ \<Rightarrow> Inl (HTTPException 500 ''Internal server error''),
          sess'))"

text \<open>\<^verbatim>\<open>GET /session/{session_id}\<close> and \<^verbatim>\<open>DELETE /session/{session_id}\<close>.\<close>

definition get_session ::
  "sessions \<Rightarrow> string \<Rightarrow> (http_error + string \<times> state) \<times> sessions" where
  "get_session sess session_id =
     (case sess (Some session_id) of
        None \<Rightarrow> (Inl (HTTPException 404 ''Session not found''), sess)
      | Some st \<Rightarrow> (Inr (session_id, st), sess))"

definition delete_session ::
  "sessions \<Rightarrow> string \<Rightarrow> (http_error + string) \<times> sessions" where
  "delete_session sess session_id =
     (case sess (Some session_id) of
        None \<Rightarrow> (Inl (HTTPException 404 ''Session not found''), sess)
      | Some st \<Rightarrow>
          (Inr (''Session '' @ session_id @ '' deleted successfully''),
           sess(Some session_id := None)))"

section \<open>Concrete scenarios\<close>

text \<open>
  A calendar with two busy intervals on 2025-07-01 (09:30 to 10:30 and 12:00 to
  13:00, given out of order), a provider that asks to book 14:00 on that day, and a
  service that accepts every insertion.
\<close>

definition demo_day :: instant where
  "demo_day = 739432 * DAY"

definition demo_busy :: "busy_entry list" where
  "demo_busy = [Inr (demo_day + 12 * HOUR, demo_day + 13 * HOUR),
                Inr (demo_day + 9 * HOUR + 30 * MINUTE, demo_day + 10 * HOUR + 30 * MINUTE)]"

definition demo_reply :: gemini_result where
  "demo_reply = [''reply'' \<mapsto> Some ''Let me check.'', ''intent'' \<mapsto> Some ''book'',
                 ''date'' \<mapsto> Some ''2025-07-01'', ''time'' \<mapsto> Some ''14:00'',
                 ''summary'' \<mapsto> None, ''email'' \<mapsto> Some ''a@b.com'']"

definition demo_event :: event where
  "demo_event = \<lparr>ev_summary = Some ''Meeting'', ev_dateTime = Some ''2025-07-01T14:00:00Z'',
                  ev_date = None, ev_htmlLink = Some ''https://calendar.example/e1''\<rparr>"

definition demo_env :: env where
  "demo_env = \<lparr>gemini = (\<lambda>h. Inr demo_reply), now = demo_day + 8 * HOUR,
                credentials = None,
                freebusy_query = (\<lambda>cal a b. Inr demo_busy),
                events_insert = (\<lambda>cal body. Inr demo_event),
                events_list = (\<lambda>cal t n. Inr [])\<rparr>"

text \<open>The same environment without an API key for the provider.\<close>

definition failing_env :: env where
  "failing_env = demo_env\<lparr>gemini :=
     (\<lambda>h. Inl (RuntimeError ''GOOGLE_API_KEY environment variable not set.''))\<rparr>"

text \<open>A provider that answers with nulls, and a state in which a slot is known.\<close>

definition null_reply :: gemini_result where
  "null_reply = [''reply'' \<mapsto> Some ''Anything else?'', ''intent'' \<mapsto> Some ''unknown'',
                 ''date'' \<mapsto> None, ''time'' \<mapsto> None, ''summary'' \<mapsto> None]"

definition null_env :: env where
  "null_env = demo_env\<lparr>gemini := (\<lambda>h. Inr null_reply)\<rparr>"

definition known_state :: state where
  "known_state = (initial_state ''book it'')\<lparr>intent := Some ''book'',
     date := Some ''2025-06-30'', start_time := Some ''09:00'',
     summary := Some ''Standup'', attendees := Some [''x@y.org'']\<rparr>"

text \<open>A calendar with nothing on it.\<close>

definition free_env :: env where
  "free_env = demo_env\<lparr>freebusy_query := (\<lambda>cal a b. Inr [])\<rparr>"

text \<open>A calendar that refuses every insertion, and one whose free/busy query fails.\<close>

definition reject_env :: env where
  "reject_env = free_env\<lparr>events_insert := (\<lambda>cal body. Inl (ServiceError ''quota exceeded''))\<rparr>"

definition outage_env :: env where
  "outage_env = demo_env\<lparr>freebusy_query :=
     (\<lambda>cal a b. Inl (ServiceError ''backend unavailable''))\<rparr>"

text \<open>The known slot (2025-06-30 at 09:00) after a turn that found it free.\<close>

definition checked_state :: state where
  "checked_state = known_state\<lparr>availability := Some True, end_time := Some ''10:00''\<rparr>"

definition checked_body :: event_body where
  "checked_body = \<lparr>eb_summary = Some ''Standup'',
                    eb_start = demo_day - 15 * HOUR, eb_start_timeZone = ''UTC'',
                    eb_end = demo_day - 14 * HOUR, eb_end_timeZone = ''UTC'',
                    eb_description = None, eb_attendees = Some [''x@y.org'']\<rparr>"

text \<open>
  A provider that asks to book the last half hour of the year 9999, and a server
  whose service-account key cannot be read.
\<close>

definition far_reply :: gemini_result where
  "far_reply = [''reply'' \<mapsto> Some ''Let me check.'', ''intent'' \<mapsto> Some ''book'',
                ''date'' \<mapsto> Some ''9999-12-31'', ''time'' \<mapsto> Some ''23:30'',
                ''summary'' \<mapsto> None, ''email'' \<mapsto> Some ''a@b.com'']"

definition far_env :: env where
  "far_env = free_env\<lparr>gemini := (\<lambda>h. Inr far_reply)\<rparr>"

definition locked_env :: env where
  "locked_env = free_env\<lparr>credentials := Some (ServiceError ''credentials.json is missing'')\<rparr>"

text \<open>
  The states that enter the Availability Check step in a first turn with
  \<open>far_env\<close> and in a turn of \<open>locked_env\<close> that continues the known slot.
\<close>

definition far_entering :: state where
  "far_entering = state_of (fst (conversational_node far_env (prepare_state ''book it'' None)))"

definition locked_entering :: state where
  "locked_entering =
     state_of (fst (conversational_node locked_env (prepare_state ''yes'' (Some known_state))))"

text \<open>
  A session in which one turn has booked a meeting, and the state that enters the
  Booking step in its next turn, when the calendar refuses the insertion.
\<close>

definition booked_state :: state where
  "booked_state = run_agent free_env ''yes'' (Some known_state)"

definition rebooking_state :: state where
  "rebooking_state =
     state_of (fst (check_availability_node reject_env
       (state_of (fst (conversational_node reject_env
          (prepare_state ''again'' (Some booked_state)))))))"

text \<open>A provider that keeps the intent \<^verbatim>\<open>book\<close> but names a date no parser reads.\<close>

definition vague_reply :: gemini_result where
  "vague_reply = [''reply'' \<mapsto> Some ''Booking it.'', ''intent'' \<mapsto> Some ''book'',
                  ''date'' \<mapsto> Some ''next week'', ''time'' \<mapsto> None, ''summary'' \<mapsto> None]"

definition vague_env :: env where
  "vague_env = demo_env\<lparr>gemini := (\<lambda>h. Inr vague_reply)\<rparr>"

text \<open>Two bodies of \<^verbatim>\<open>POST /chat\<close> that carry a message and nothing else.\<close>

definition first_body :: chat_body where
  "first_body = \<lparr>body_message = ''book tuesday'', body_session_id = None,
                  body_calendar_id = None\<rparr>"

definition second_body :: chat_body where
  "second_body = \<lparr>body_message = ''what did I ask?'', body_session_id = None,
                   body_calendar_id = None\<rparr>"

section \<open>The availability planner\<close>







section \<open>The regex fallback extractor\<close>

lemma extract_time_2pm:
  "extract_time time_patterns ''Book a meeting tomorrow at 2pm''
     = Inl (ValueError (''invalid literal for int() with base 10: '' @ [CHR 0x27] @ ''pm''
                        @ [CHR 0x27]))"
  by code_simp

lemma extract_time_12am:
  "extract_time time_patterns ''12am''
     = Inl (ValueError (''invalid literal for int() with base 10: '' @ [CHR 0x27] @ ''am''
                        @ [CHR 0x27]))"
  by code_simp

lemma extract_time_12pm:
  "extract_time time_patterns ''12pm''
     = Inl (ValueError (''invalid literal for int() with base 10: '' @ [CHR 0x27] @ ''pm''
                        @ [CHR 0x27]))"
  by code_simp

text \<open>
  \<^bold>\<open>C2.\<close> On the message \<^verbatim>\<open>Book a meeting tomorrow at 2pm\<close> the first pattern finds
  nothing (there is no colon), the second pattern matches \<^verbatim>\<open>2pm\<close> with the two
  groups \<^verbatim>\<open>2\<close> and \<^verbatim>\<open>pm\<close>, and since that match has fewer than three groups the
  \<^verbatim>\<open>else\<close> branch converts group 2, the text \<^verbatim>\<open>pm\<close>, with \<^verbatim>\<open>int\<close>: the extractor
  raises \<^verbatim>\<open>ValueError\<close> instead of returning the time 14:00. The same happens on
  \<^verbatim>\<open>12am\<close> and \<^verbatim>\<open>12pm\<close>, whatever the current date is.
\<close>

theorem fallback_extraction_hour_ampm_raises:
  "fallback_extraction today ''Book a meeting tomorrow at 2pm''
     = Inl (ValueError (''invalid literal for int() with base 10: '' @ [CHR 0x27] @ ''pm''
                        @ [CHR 0x27]))
   \<and> fallback_extraction today ''12am''
     = Inl (ValueError (''invalid literal for int() with base 10: '' @ [CHR 0x27] @ ''am''
                        @ [CHR 0x27]))
   \<and> fallback_extraction today ''12pm''
     = Inl (ValueError (''invalid literal for int() with base 10: '' @ [CHR 0x27] @ ''pm''
                        @ [CHR 0x27]))"
  by (simp only: fallback_extraction_def Let_def extract_time_2pm extract_time_12am
        extract_time_12pm sum.case simp_thms)

text \<open>
  The conversion from the 12-hour clock is reached by the first pattern only, that
  is when the time is written with minutes: there 12am is 00, 12pm is 12, and any
  other pm hour gains 12.
\<close>

lemma fallback_extraction_with_minutes:
  "fallback_extraction (demo_day + 8 * HOUR) ''Book a meeting tomorrow at 2:00pm''
     = Inr \<lparr>ex_intent = ''book'', ex_date = Some ''2025-07-02'', ex_time = Some ''14:00'',
            ex_summary = None\<rparr>"
  "fallback_extraction (demo_day + 8 * HOUR) ''12:00am''
     = Inr \<lparr>ex_intent = ''unknown'', ex_date = None, ex_time = Some ''00:00'',
            ex_summary = None\<rparr>"
  "fallback_extraction (demo_day + 8 * HOUR) ''12:00 PM''
     = Inr \<lparr>ex_intent = ''unknown'', ex_date = None, ex_time = Some ''12:00'',
            ex_summary = None\<rparr>"
  by code_simp+

section \<open>The Interpret step\<close>

lemma conversational_node_provider_failure:
  "gemini E (history_of s) = Inl e \<Longrightarrow> conversational_node E s = (Raise e s, [])"
  by (simp add: conversational_node_def)

text \<open>
  \<^bold>\<open>C3, as stated, fails.\<close> Without an API key the provider call raises; the
  Interpret step has no handler, so the exception leaves the step with the state
  untouched, and \<^verbatim>\<open>run_agent\<close> answers the user with an error message. The regex
  fallback, on the same message, would have found the intent \<^verbatim>\<open>book\<close>, today's date
  and the time 10:30; the turn's result has none of them.
\<close>

theorem interpret_fallback_counterexample:
  "conversational_node failing_env (prepare_state ''schedule a call today at 10:30'' None)
     = (Raise (RuntimeError ''GOOGLE_API_KEY environment variable not set.'')
          (prepare_state ''schedule a call today at 10:30'' None), [])
   \<and> fallback_extraction (now failing_env) ''schedule a call today at 10:30''
     = Inr \<lparr>ex_intent = ''book'', ex_date = Some ''2025-07-01'', ex_time = Some ''10:30'',
            ex_summary = None\<rparr>
   \<and> intent (run_agent failing_env ''schedule a call today at 10:30'' None) = None
   \<and> date (run_agent failing_env ''schedule a call today at 10:30'' None) = None
   \<and> start_time (run_agent failing_env ''schedule a call today at 10:30'' None) = None
   \<and> response (run_agent failing_env ''schedule a call today at 10:30'' None)
     = Some ''Sorry, I encountered an error: GOOGLE_API_KEY environment variable not set.''"
  by code_simp

text \<open>
  \<^bold>\<open>C3, amended.\<close> When the provider call of a turn fails with an exception \<open>e\<close>, the
  Interpret step raises \<open>e\<close> and leaves the state as \<^verbatim>\<open>run_agent\<close> prepared it; no
  other step runs and no calendar call is made; \<^verbatim>\<open>run_agent\<close> catches \<open>e\<close> and returns
  normally the prepared state with the response
  \<^verbatim>\<open>Sorry, I encountered an error: \<close> followed by the text of \<open>e\<close>.
\<close>

theorem run_agent_provider_failure:
  assumes "gemini E (history_of (prepare_state message st)) = Inl e"
  shows "conversational_node E (prepare_state message st)
           = (Raise e (prepare_state message st), [])
         \<and> run_agent_trace E message st
           = ((prepare_state message st)
                \<lparr>response := Some (''Sorry, I encountered an error: '' @ exn_str e)\<rparr>,
              [Conversational], [])"
  using conversational_node_provider_failure [OF assms]
  by (simp add: run_agent_trace_def agent_invoke_def)

theorem run_agent_provider_failure_witness:
  "gemini failing_env (history_of (prepare_state ''hello'' (Some known_state)))
     = Inl (RuntimeError ''GOOGLE_API_KEY environment variable not set.'')
   \<and> run_agent_trace failing_env ''hello'' (Some known_state)
     = ((prepare_state ''hello'' (Some known_state))
          \<lparr>response := Some (''Sorry, I encountered an error: ''
               @ exn_str (RuntimeError ''GOOGLE_API_KEY environment variable not set.''))\<rparr>,
        [Conversational], [])"
proof -
  have h: "gemini failing_env (history_of (prepare_state ''hello'' (Some known_state)))
             = Inl (RuntimeError ''GOOGLE_API_KEY environment variable not set.'')"
    by (simp add: failing_env_def)
  from run_agent_provider_failure [OF h] h show ?thesis by blast
qed

lemma merge_reply_fields:
  "date (merge_reply g s) = (if truthy (dict_get g ''date'') then dict_get g ''date'' else date s)"
  "start_time (merge_reply g s)
     = (if truthy (dict_get g ''time'') then dict_get g ''time'' else start_time s)"
  "summary (merge_reply g s)
     = (if truthy (dict_get g ''summary'') then dict_get g ''summary'' else summary s)"
  "attendees (merge_reply g s)
     = (if truthy (dict_get g ''email'') then Some [py_str (dict_get g ''email'')]
        else attendees s)"
  by (simp_all add: merge_reply_def Let_def)

lemma missing_info_fields:
  "date (missing_info s) = date s"
  "start_time (missing_info s) = start_time s"
  "summary (missing_info s) = summary s"
  "attendees (missing_info s) = attendees s"
  "intent (missing_info s) = intent s"
  "history (missing_info s) = history s"
  "availability (missing_info s) = availability s"
  "booking_confirmed (missing_info s) = booking_confirmed s"
  by (simp_all add: missing_info_def)

lemma conversational_node_fields:
  assumes "gemini E (history_of s) = Inr g"
  shows "date (state_of (fst (conversational_node E s))) = date (merge_reply g s)"
    "start_time (state_of (fst (conversational_node E s))) = start_time (merge_reply g s)"
    "summary (state_of (fst (conversational_node E s))) = summary (merge_reply g s)"
    "attendees (state_of (fst (conversational_node E s))) = attendees (merge_reply g s)"
  using assms
  by (simp_all add: conversational_node_def Let_def missing_info_fields
        split: sum.splits prod.splits)

lemma truthy_dict_get:
  "truthy (dict_get g k) \<Longrightarrow> \<exists>v. g k = Some (Some v) \<and> v \<noteq> [] \<and> dict_get g k = Some v"
  by (auto simp: truthy_def dict_get_def split: option.splits)

text \<open>
  \<^bold>\<open>C4.\<close> Whatever the state and the environment, the Interpret step changes
  \<open>date\<close>, \<open>start_time\<close>, \<open>summary\<close> or \<open>attendees\<close> only when the provider answered and
  its dictionary holds a string (not \<^verbatim>\<open>null\<close>, not a missing key) under \<^verbatim>\<open>date\<close>,
  \<^verbatim>\<open>time\<close>, \<^verbatim>\<open>summary\<close> or \<^verbatim>\<open>email\<close>, and the new value is that string. In particular
  an answer whose date, time and summary are null or missing leaves the three
  fields as they were. This holds for the state the step returns and also for the
  state it leaves behind when it raises.
\<close>

theorem conversational_node_keeps_known_fields:
  "(date (state_of (fst (conversational_node E s))) \<noteq> date s \<longrightarrow>
      (\<exists>g v. gemini E (history_of s) = Inr g \<and> g ''date'' = Some (Some v) \<and>
             date (state_of (fst (conversational_node E s))) = Some v))
   \<and> (start_time (state_of (fst (conversational_node E s))) \<noteq> start_time s \<longrightarrow>
      (\<exists>g v. gemini E (history_of s) = Inr g \<and> g ''time'' = Some (Some v) \<and>
             start_time (state_of (fst (conversational_node E s))) = Some v))
   \<and> (summary (state_of (fst (conversational_node E s))) \<noteq> summary s \<longrightarrow>
      (\<exists>g v. gemini E (history_of s) = Inr g \<and> g ''summary'' = Some (Some v) \<and>
             summary (state_of (fst (conversational_node E s))) = Some v))
   \<and> (attendees (state_of (fst (conversational_node E s))) \<noteq> attendees s \<longrightarrow>
      (\<exists>g v. gemini E (history_of s) = Inr g \<and> g ''email'' = Some (Some v) \<and>
             attendees (state_of (fst (conversational_node E s))) = Some [v]))
   \<and> (\<forall>g. gemini E (history_of s) = Inr g \<and> dict_get g ''date'' = None \<and>
          dict_get g ''time'' = None \<and> dict_get g ''summary'' = None \<longrightarrow>
          date (state_of (fst (conversational_node E s))) = date s \<and>
          start_time (state_of (fst (conversational_node E s))) = start_time s \<and>
          summary (state_of (fst (conversational_node E s))) = summary s)"
proof (cases "gemini E (history_of s)")
  case (Inl e)
  from conversational_node_provider_failure [OF Inl] show ?thesis
    by (simp add: Inl)
next
  case (Inr g)
  note f = conversational_node_fields [OF Inr] merge_reply_fields
  have "date (state_of (fst (conversational_node E s))) \<noteq> date s \<longrightarrow>
          (\<exists>v. g ''date'' = Some (Some v) \<and>
               date (state_of (fst (conversational_node E s))) = Some v)"
    using truthy_dict_get [of g "''date''"] by (auto simp: f)
  moreover have "start_time (state_of (fst (conversational_node E s))) \<noteq> start_time s \<longrightarrow>
          (\<exists>v. g ''time'' = Some (Some v) \<and>
               start_time (state_of (fst (conversational_node E s))) = Some v)"
    using truthy_dict_get [of g "''time''"] by (auto simp: f)
  moreover have "summary (state_of (fst (conversational_node E s))) \<noteq> summary s \<longrightarrow>
          (\<exists>v. g ''summary'' = Some (Some v) \<and>
               summary (state_of (fst (conversational_node E s))) = Some v)"
    using truthy_dict_get [of g "''summary''"] by (auto simp: f)
  moreover have "attendees (state_of (fst (conversational_node E s))) \<noteq> attendees s \<longrightarrow>
          (\<exists>v. g ''email'' = Some (Some v) \<and>
               attendees (state_of (fst (conversational_node E s))) = Some [v])"
    using truthy_dict_get [of g "''email''"] by (auto simp: f py_str_def)
  moreover have "dict_get g ''date'' = None \<and> dict_get g ''time'' = None \<and>
          dict_get g ''summary'' = None \<longrightarrow>
          date (state_of (fst (conversational_node E s))) = date s \<and>
          start_time (state_of (fst (conversational_node E s))) = start_time s \<and>
          summary (state_of (fst (conversational_node E s))) = summary s"
    by (simp add: f truthy_def)
  ultimately show ?thesis
    by (simp add: Inr)
qed

theorem conversational_node_keeps_known_fields_witness:
  "gemini null_env (history_of known_state) = Inr null_reply
   \<and> dict_get null_reply ''date'' = None \<and> dict_get null_reply ''time'' = None
   \<and> dict_get null_reply ''summary'' = None
   \<and> date (state_of (fst (conversational_node null_env known_state))) = Some ''2025-06-30''
   \<and> start_time (state_of (fst (conversational_node null_env known_state))) = Some ''09:00''
   \<and> summary (state_of (fst (conversational_node null_env known_state))) = Some ''Standup''
   \<and> date (state_of (fst (conversational_node demo_env known_state))) \<noteq> date known_state
   \<and> demo_reply ''date'' = Some (Some ''2025-07-01'')
   \<and> date (state_of (fst (conversational_node demo_env known_state))) = Some ''2025-07-01''"
proof -
  have a: "gemini null_env (history_of known_state) = Inr null_reply"
    by (simp add: null_env_def)
  have b: "dict_get null_reply ''date'' = None" "dict_get null_reply ''time'' = None"
    "dict_get null_reply ''summary'' = None"
    by (simp_all add: dict_get_def null_reply_def)
  have k: "date known_state = Some ''2025-06-30''" "start_time known_state = Some ''09:00''"
    "summary known_state = Some ''Standup''"
    by (simp_all add: known_state_def initial_state_def)
  from conversational_node_keeps_known_fields [of null_env known_state] a b
  have keep: "date (state_of (fst (conversational_node null_env known_state))) = date known_state
     \<and> start_time (state_of (fst (conversational_node null_env known_state)))
         = start_time known_state
     \<and> summary (state_of (fst (conversational_node null_env known_state)))
         = summary known_state"
    by blast
  have d: "gemini demo_env (history_of known_state) = Inr demo_reply"
    by (simp add: demo_env_def)
  have r: "demo_reply ''date'' = Some (Some ''2025-07-01'')"
    by (simp add: demo_reply_def)
  have ne: "date (state_of (fst (conversational_node demo_env known_state)))
              \<noteq> date known_state"
    by (simp add: conversational_node_fields [OF d] merge_reply_fields dict_get_def r
          truthy_def k)
  with conversational_node_keeps_known_fields [of demo_env known_state] d r
  have "date (state_of (fst (conversational_node demo_env known_state)))
          = Some ''2025-07-01''"
    by auto
  with a b keep k ne r show ?thesis by simp
qed

section \<open>The gate before the Booking step\<close>

lemma conversational_node_no_insert:
  "\<forall>c\<in>set (snd (conversational_node E s)). \<not> is_insert c"
  by (auto simp: conversational_node_def Let_def list_upcoming_events_def
        split: sum.splits prod.splits)

lemma suggest_free_slots_no_insert:
  "\<forall>c\<in>set (snd (suggest_free_slots E cal t dur ws we mx)). \<not> is_insert c"
  by (auto simp: suggest_free_slots_def split: sum.splits)

lemma check_availability_no_insert:
  "\<forall>c\<in>set (snd (check_availability E cal a b)). \<not> is_insert c"
  by (auto simp: check_availability_def split: sum.splits)

lemma query_slot_no_insert:
  "\<forall>c\<in>set (snd (query_slot E s ds ts a b)). \<not> is_insert c"
proof -
  have 1: "\<And>r cs. check_availability E (calendar_id s) a b = (r, cs) \<Longrightarrow>
             \<forall>c\<in>set cs. \<not> is_insert c"
    using check_availability_no_insert [of E "calendar_id s" a b] by simp
  have 2: "\<And>cal r cs. suggest_free_slots E cal a 60 9 18 3 = (r, cs) \<Longrightarrow>
             \<forall>c\<in>set cs. \<not> is_insert c"
    using suggest_free_slots_no_insert [of E _ a 60 9 18 3] by (metis snd_conv)
  show ?thesis
    by (auto simp: query_slot_def Let_def split: sum.splits prod.splits dest: 1 2)
qed

lemma check_day_no_insert:
  "\<forall>c\<in>set (snd (check_day E s)). \<not> is_insert c"
proof -
  have 2: "\<And>cal t r cs. suggest_free_slots E cal t 60 9 18 3 = (r, cs) \<Longrightarrow>
             \<forall>c\<in>set cs. \<not> is_insert c"
    using suggest_free_slots_no_insert [of E _ _ 60 9 18 3] by (metis snd_conv)
  show ?thesis
    by (auto simp: check_day_def Let_def split: sum.splits prod.splits dest: 2)
qed

lemma check_availability_node_no_insert:
  "\<forall>c\<in>set (snd (check_availability_node E s)). \<not> is_insert c"
proof -
  have 1: "\<And>s' ds ts a b r cs. query_slot E s' ds ts a b = (r, cs) \<Longrightarrow>
             \<forall>c\<in>set cs. \<not> is_insert c"
    using query_slot_no_insert by (metis snd_conv)
  show ?thesis
    using check_day_no_insert [of E s]
    by (auto simp: check_availability_node_def Let_def split: sum.splits prod.splits dest: 1)
qed

lemma booking_node_guard:
  "availability s \<noteq> Some True \<Longrightarrow>
     booking_node E s
       = (Return (s\<lparr>response :=
            Some ''Cannot book: slot is not available or not checked yet.''\<rparr>), [])"
  by (simp add: booking_node_def)

lemma route_check_availability_iff:
  "route_check_availability s = Booking \<longleftrightarrow>
     availability s = Some True \<and> intent s = Some ''book''"
  by (simp add: route_check_availability_def)

text \<open>
  \<^bold>\<open>C5.\<close> In every turn, if the Booking step ran or an insertion was sent to the
  calendar service, then the Interpret step and the Availability Check step had both
  returned, and the state that left the Availability Check step had \<open>availability\<close>
  true and the intent \<^verbatim>\<open>book\<close>. The edge after the Availability Check leads to
  Booking exactly for such states, and the Booking step itself sends no insertion
  for a state whose \<open>availability\<close> is not true.
\<close>

theorem booking_only_when_available:
  "(run_agent_trace E message st = (result, visited, calls) \<and>
      (Booking \<in> set visited \<or> (\<exists>c\<in>set calls. is_insert c)) \<longrightarrow>
      (\<exists>s1 c1 s2 c2.
         conversational_node E (prepare_state message st) = (Return s1, c1) \<and>
         check_availability_node E s1 = (Return s2, c2) \<and>
         availability s2 = Some True \<and> intent s2 = Some ''book''))
   \<and> (route_check_availability s = Booking \<longleftrightarrow>
        availability s = Some True \<and> intent s = Some ''book'')
   \<and> (availability s \<noteq> Some True \<longrightarrow> (\<forall>c\<in>set (snd (booking_node E s)). \<not> is_insert c))"
proof -
  let ?s0 = "prepare_state message st"
  obtain o1 c1 where conv: "conversational_node E ?s0 = (o1, c1)"
    by (cases "conversational_node E ?s0")
  have n1: "\<forall>c\<in>set c1. \<not> is_insert c"
    using conversational_node_no_insert [of E ?s0] conv by simp
  have gate: "run_agent_trace E message st = (result, visited, calls) \<Longrightarrow>
      Booking \<in> set visited \<or> (\<exists>c\<in>set calls. is_insert c) \<Longrightarrow>
      \<exists>s1 c1 s2 c2.
         conversational_node E ?s0 = (Return s1, c1) \<and>
         check_availability_node E s1 = (Return s2, c2) \<and>
         availability s2 = Some True \<and> intent s2 = Some ''book''"
  proof (cases o1)
    case (Raise e s1)
    assume "run_agent_trace E message st = (result, visited, calls)"
      and "Booking \<in> set visited \<or> (\<exists>c\<in>set calls. is_insert c)"
    with conv Raise n1 show ?thesis
      by (auto simp: run_agent_trace_def agent_invoke_def)
  next
    case (Return s1)
    assume run: "run_agent_trace E message st = (result, visited, calls)"
      and hit: "Booking \<in> set visited \<or> (\<exists>c\<in>set calls. is_insert c)"
    obtain o2 c2 where chk: "check_availability_node E s1 = (o2, c2)"
      by (cases "check_availability_node E s1")
    have n2: "\<forall>c\<in>set c2. \<not> is_insert c"
      using check_availability_node_no_insert [of E s1] chk by simp
    show ?thesis
    proof (cases "route_conversational s1 = END")
      case True
      with run hit conv Return n1 show ?thesis
        by (auto simp: run_agent_trace_def agent_invoke_def)
    next
      case False
      show ?thesis
      proof (cases o2)
        case (Raise e s2)
        with run hit conv Return chk False n1 n2 show ?thesis
          by (auto simp: run_agent_trace_def agent_invoke_def)
      next
        case r2: (Return s2)
        show ?thesis
        proof (cases "route_check_availability s2 = END")
          case True
          with run hit conv Return chk False r2 n1 n2 show ?thesis
            by (auto simp: run_agent_trace_def agent_invoke_def)
        next
          case go: False
          then have "availability s2 = Some True \<and> intent s2 = Some ''book''"
            by (simp add: route_check_availability_def split: if_splits)
          with conv Return chk r2 show ?thesis by simp
        qed
      qed
    qed
  qed
  have "availability s \<noteq> Some True \<longrightarrow> (\<forall>c\<in>set (snd (booking_node E s)). \<not> is_insert c)"
    by (simp add: booking_node_guard)
  with gate route_check_availability_iff [of s] show ?thesis by blast
qed

theorem booking_only_when_available_witness:
  "Booking \<in> set (fst (snd (run_agent_trace free_env ''yes'' (Some known_state))))
   \<and> (\<exists>c\<in>set (snd (snd (run_agent_trace free_env ''yes'' (Some known_state)))). is_insert c)
   \<and> (\<exists>s1 c1 s2 c2.
         conversational_node free_env (prepare_state ''yes'' (Some known_state))
           = (Return s1, c1) \<and>
         check_availability_node free_env s1 = (Return s2, c2) \<and>
         availability s2 = Some True \<and> intent s2 = Some ''book'')
   \<and> availability known_state \<noteq> Some True
   \<and> \<not> list_ex is_insert (snd (booking_node free_env known_state))"
proof -
  have run: "run_agent_trace free_env ''yes'' (Some known_state)
      = (fst (run_agent_trace free_env ''yes'' (Some known_state)),
         fst (snd (run_agent_trace free_env ''yes'' (Some known_state))),
         snd (snd (run_agent_trace free_env ''yes'' (Some known_state))))"
    by simp
  have hit: "Booking \<in> set (fst (snd (run_agent_trace free_env ''yes'' (Some known_state))))"
    by code_simp
  have ins: "\<exists>c\<in>set (snd (snd (run_agent_trace free_env ''yes'' (Some known_state)))).
               is_insert c"
    by code_simp
  have na: "availability known_state \<noteq> Some True"
    by (simp add: known_state_def initial_state_def)
  from booking_only_when_available [of free_env "''yes''" "Some known_state"
      "fst (run_agent_trace free_env ''yes'' (Some known_state))"
      "fst (snd (run_agent_trace free_env ''yes'' (Some known_state)))"
      "snd (snd (run_agent_trace free_env ''yes'' (Some known_state)))"
      known_state] run hit na ins
  show ?thesis by (simp only: list_ex_iff) blast
qed

section \<open>The Booking step\<close>

text \<open>
  \<^bold>\<open>C6, as stated, fails.\<close> No turn resets \<open>booking_confirmed\<close>. In a session whose
  previous turn booked a meeting the flag is true; the next turn reaches the
  Booking step with the flag still true, the calendar refuses the insertion, the
  response is the booking-failure message, and \<open>booking_confirmed\<close> is true after
  the step: it does not remain false.
\<close>

theorem booking_confirmed_counterexample:
  "booking_confirmed booked_state
   \<and> fst (snd (run_agent_trace reject_env ''again'' (Some booked_state)))
       = [Conversational, CheckAvailability, Booking]
   \<and> availability rebooking_state = Some True
   \<and> intent rebooking_state = Some ''book''
   \<and> booking_confirmed rebooking_state
   \<and> snd (booking_node reject_env rebooking_state)
       = [EventsInsert (Some ''aryanrai97861@gmail.com'')
            \<lparr>eb_summary = Some ''Standup'',
             eb_start = demo_day + 14 * HOUR, eb_start_timeZone = ''UTC'',
             eb_end = demo_day + 15 * HOUR, eb_end_timeZone = ''UTC'',
             eb_description = None, eb_attendees = Some [''a@b.com'']\<rparr>]
   \<and> events_insert reject_env (Some ''aryanrai97861@gmail.com'')
         \<lparr>eb_summary = Some ''Standup'',
          eb_start = demo_day + 14 * HOUR, eb_start_timeZone = ''UTC'',
          eb_end = demo_day + 15 * HOUR, eb_end_timeZone = ''UTC'',
          eb_description = None, eb_attendees = Some [''a@b.com'']\<rparr>
       = Inl (ServiceError ''quota exceeded'')
   \<and> response (state_of (fst (booking_node reject_env rebooking_state)))
       = Some ''Booking failed: quota exceeded''
   \<and> booking_confirmed (state_of (fst (booking_node reject_env rebooking_state)))
   \<and> response (run_agent reject_env ''again'' (Some booked_state))
       = Some ''Booking failed: quota exceeded''
   \<and> booking_confirmed (run_agent reject_env ''again'' (Some booked_state))"
  by code_simp

text \<open>
  \<^bold>\<open>C6, amended.\<close> The Booking step always returns a state. If it sent an insertion
  to the calendar service and the service failed with \<open>e\<close>, the returned state is
  the entering state with nothing changed but the response, which is
  \<^verbatim>\<open>Booking failed: \<close> followed by the text of \<open>e\<close>; so \<open>booking_confirmed\<close> keeps the
  value it had on entry: it stays false if it was false, and stays true if an
  earlier turn of the session had booked. If \<open>booking_confirmed\<close> is true after the
  step and was not before, then one insertion was sent and succeeded, and the
  response ends with the link of the created event (\<^verbatim>\<open>N/A\<close> when the event has
  none).
\<close>

theorem booking_node_failure_is_clean:
  "(\<exists>s'. fst (booking_node E s) = Return s')
   \<and> (snd (booking_node E s) = [EventsInsert cal body] \<and> events_insert E cal body = Inl e \<longrightarrow>
        fst (booking_node E s)
          = Return (s\<lparr>response := Some (''Booking failed: '' @ exn_str e)\<rparr>) \<and>
        booking_confirmed (state_of (fst (booking_node E s))) = booking_confirmed s)
   \<and> (booking_confirmed (state_of (fst (booking_node E s))) \<and> \<not> booking_confirmed s \<longrightarrow>
        (\<exists>cal' body' ev pre.
           snd (booking_node E s) = [EventsInsert cal' body'] \<and>
           events_insert E cal' body' = Inr ev \<and>
           response (state_of (fst (booking_node E s)))
             = Some (pre @ (case ev_htmlLink ev of None \<Rightarrow> ''N/A'' | Some l \<Rightarrow> l))))"
proof -
  have 1: "\<exists>s'. fst (booking_node E s) = Return s'"
    by (auto simp: booking_node_def Let_def book_event_def split: sum.splits prod.splits)
  have 2: "snd (booking_node E s) = [EventsInsert cal body] \<and>
           events_insert E cal body = Inl e \<longrightarrow>
        fst (booking_node E s)
          = Return (s\<lparr>response := Some (''Booking failed: '' @ exn_str e)\<rparr>)"
    by (auto simp: booking_node_def Let_def book_event_def split: sum.splits prod.splits)
  have 3: "booking_confirmed (state_of (fst (booking_node E s))) \<and> \<not> booking_confirmed s \<longrightarrow>
        (\<exists>cal' body' ev pre.
           snd (booking_node E s) = [EventsInsert cal' body'] \<and>
           events_insert E cal' body' = Inr ev \<and>
           response (state_of (fst (booking_node E s)))
             = Some (pre @ (case ev_htmlLink ev of None \<Rightarrow> ''N/A'' | Some l \<Rightarrow> l)))"
    by (auto simp: booking_node_def Let_def book_event_def split: sum.splits prod.splits)
  from 1 2 3 show ?thesis by auto
qed

lemma reject_calls:
  "snd (booking_node reject_env checked_state)
     = [EventsInsert (Some ''aryanrai97861@gmail.com'') checked_body]"
  by code_simp

lemma accept_confirmed:
  "booking_confirmed (state_of (fst (booking_node free_env checked_state)))"
  by code_simp

theorem booking_node_failure_is_clean_witness:
  "snd (booking_node reject_env checked_state)
     = [EventsInsert (Some ''aryanrai97861@gmail.com'') checked_body]
   \<and> events_insert reject_env (Some ''aryanrai97861@gmail.com'') checked_body
     = Inl (ServiceError ''quota exceeded'')
   \<and> fst (booking_node reject_env checked_state)
     = Return (checked_state\<lparr>response := Some (''Booking failed: ''
                 @ exn_str (ServiceError ''quota exceeded''))\<rparr>)
   \<and> \<not> booking_confirmed (state_of (fst (booking_node reject_env checked_state)))
   \<and> booking_confirmed (state_of (fst (booking_node free_env checked_state)))
   \<and> \<not> booking_confirmed checked_state
   \<and> (\<exists>cal' body' ev pre.
         snd (booking_node free_env checked_state) = [EventsInsert cal' body'] \<and>
         events_insert free_env cal' body' = Inr ev \<and>
         response (state_of (fst (booking_node free_env checked_state)))
           = Some (pre @ (case ev_htmlLink ev of None \<Rightarrow> ''N/A'' | Some l \<Rightarrow> l)))"
proof -
  have f: "events_insert reject_env (Some ''aryanrai97861@gmail.com'') checked_body
             = Inl (ServiceError ''quota exceeded'')"
    by (simp add: reject_env_def)
  have nb: "\<not> booking_confirmed checked_state"
    by (simp add: checked_state_def known_state_def initial_state_def)
  from booking_node_failure_is_clean [of reject_env checked_state
      "Some ''aryanrai97861@gmail.com''" checked_body "ServiceError ''quota exceeded''"]
    reject_calls f nb
  have a: "fst (booking_node reject_env checked_state)
     = Return (checked_state\<lparr>response := Some (''Booking failed: ''
                 @ exn_str (ServiceError ''quota exceeded''))\<rparr>)
     \<and> \<not> booking_confirmed (state_of (fst (booking_node reject_env checked_state)))"
    by simp
  from booking_node_failure_is_clean [of free_env checked_state] accept_confirmed nb
  have b: "\<exists>cal' body' ev pre.
         snd (booking_node free_env checked_state) = [EventsInsert cal' body'] \<and>
         events_insert free_env cal' body' = Inr ev \<and>
         response (state_of (fst (booking_node free_env checked_state)))
           = Some (pre @ (case ev_htmlLink ev of None \<Rightarrow> ''N/A'' | Some l \<Rightarrow> l))"
    by blast
  from a b reject_calls f nb accept_confirmed show ?thesis by blast
qed

section \<open>The Availability Check step\<close>

lemma mod_div_swap:
  fixes a b c :: int
  assumes "0 < b" "0 < c"
  shows "a mod (b * c) div b = (a div b) mod c"
proof -
  have "a mod (b * c) = b * (a div b mod c) + a mod b"
    using assms by (simp add: zmod_zmult2_eq)
  then have "a mod (b * c) div b = (b * (a div b mod c) + a mod b) div b" by simp
  also have "\<dots> = a div b mod c"
    using assms by simp
  finally show ?thesis .
qed

lemma minute_after_hour_general:
  fixes t M :: int
  assumes "0 < M"
  shows "(t + 60 * M) mod (M * 1440) div M = ((t mod (M * 1440)) div M + 60) mod 1440"
proof -
  have "(t + 60 * M) mod (M * 1440) div M = ((t + 60 * M) div M) mod 1440"
    using assms by (simp add: mod_div_swap)
  also have "(t + 60 * M) div M = t div M + 60"
    using assms by simp
  also have "(t div M + 60) mod 1440 = ((t div M) mod 1440 + 60) mod 1440"
    by (simp add: mod_add_left_eq)
  also have "(t div M) mod 1440 = (t mod (M * 1440)) div M"
    using assms by (simp add: mod_div_swap)
  finally show ?thesis .
qed

lemma minute_of_day_after_hour:
  "minute_of_day (t + 60 * MINUTE) = (minute_of_day t + 60) mod 1440"
proof -
  have M: "0 < MINUTE" by (simp add: MINUTE_def)
  have D: "DAY = MINUTE * 1440" by (simp add: DAY_def HOUR_def)
  show ?thesis
    unfolding minute_of_day_def D by (rule minute_after_hour_general [OF M])
qed

lemma strftime_HM_minute_of_day:
  "strftime_HM t = fmt02d (minute_of_day t div 60) @ '':'' @ fmt02d (minute_of_day t mod 60)"
proof -
  have M: "0 < MINUTE" by (simp add: MINUTE_def)
  have H: "HOUR = MINUTE * 60" by (simp add: HOUR_def)
  have 1: "(t mod DAY) div HOUR = (t mod DAY) div MINUTE div 60"
    unfolding H using M by (simp add: zdiv_zmult2_eq)
  have 2: "((t mod DAY) mod HOUR) div MINUTE = (t mod DAY) div MINUTE mod 60"
    unfolding H using M by (simp add: mod_div_swap)
  show ?thesis
    by (simp add: strftime_HM_def minute_of_day_def 1 2)
qed

lemma suggest_free_slots_calls:
  "snd (suggest_free_slots E cal t 60 9 18 3) = [] \<or>
   snd (suggest_free_slots E cal t 60 9 18 3)
     = [FreeBusyQuery cal ((t div DAY) * DAY + 9 * HOUR) ((t div DAY) * DAY + 18 * HOUR)]"
  by (auto simp: suggest_free_slots_def replace_hour_def split: sum.splits)

lemma query_slot_end_time:
  "end_time (fst (query_slot E s ds ts a b)) = end_time s"
  by (auto simp: query_slot_def Let_def split: sum.splits prod.splits)

lemma query_slot_calls:
  "(credentials E = None \<longrightarrow>
      (\<exists>rest. snd (query_slot E s ds ts a b) = FreeBusyQuery (calendar_id s) a b # rest \<and>
         (\<forall>c\<in>set rest. c = FreeBusyQuery (calendar_id s) ((a div DAY) * DAY + 9 * HOUR)
                              ((a div DAY) * DAY + 18 * HOUR))))
   \<and> (credentials E \<noteq> None \<longrightarrow> snd (query_slot E s ds ts a b) = [])"
proof -
  have sg: "\<And>r cs. suggest_free_slots E (calendar_id s) a 60 9 18 3 = (r, cs) \<Longrightarrow>
     \<forall>c\<in>set cs. c = FreeBusyQuery (calendar_id s) ((a div DAY) * DAY + 9 * HOUR)
                       ((a div DAY) * DAY + 18 * HOUR)"
    using suggest_free_slots_calls [of E "calendar_id s" a] by auto
  show ?thesis
    by (auto simp: query_slot_def Let_def authenticate_google_calendar_def
          check_availability_def split: sum.splits prod.splits option.splits dest: sg)
qed

lemma route_conversational_entering:
  "route_conversational s = CheckAvailability \<Longrightarrow>
     \<not> needs_more_info s \<and> (intent s = Some ''book'' \<or> intent s = Some ''check'')"
  by (auto simp: route_conversational_def split: if_splits)

text \<open>
  \<^bold>\<open>C7, as stated, fails.\<close> First turn, the provider asks to book 9999-12-31 at
  23:30: the edge sends the state to the Availability Check with the intent
  \<^verbatim>\<open>book\<close>, the date and the time parse, but one hour later is no datetime any
  more; the step answers that it could not parse, leaves \<open>end_time\<close> absent and
  asks the calendar nothing. Second, a server without its service-account key: the
  state enters the step with the intent \<^verbatim>\<open>book\<close>, 2025-07-01 and 14:00; \<open>end_time\<close>
  becomes 15:00, but the client cannot be built and no free/busy query is made.
\<close>

theorem check_availability_node_counterexample:
  "fst (snd (run_agent_trace far_env ''book it'' None)) = [Conversational, CheckAvailability]
   \<and> route_conversational far_entering = CheckAvailability
   \<and> intent far_entering = Some ''book''
   \<and> date far_entering = Some ''9999-12-31'' \<and> start_time far_entering = Some ''23:30''
   \<and> strptime FMT_DATE_TIME (''9999-12-31'' @ '' '' @ ''23:30'')
       = Inr (MAXORDINAL * DAY - 30 * MINUTE)
   \<and> end_time far_entering = None
   \<and> end_time (state_of (fst (check_availability_node far_env far_entering))) = None
   \<and> response (state_of (fst (check_availability_node far_env far_entering)))
       = Some ''Could not parse date/time: date value out of range''
   \<and> snd (check_availability_node far_env far_entering) = []
   \<and> end_time (run_agent far_env ''book it'' None) = None
   \<and> fst (snd (run_agent_trace locked_env ''yes'' (Some known_state)))
       = [Conversational, CheckAvailability]
   \<and> route_conversational locked_entering = CheckAvailability
   \<and> intent locked_entering = Some ''book''
   \<and> date locked_entering = Some ''2025-07-01'' \<and> start_time locked_entering = Some ''14:00''
   \<and> strptime FMT_DATE_TIME (''2025-07-01'' @ '' '' @ ''14:00'') = Inr (demo_day + 14 * HOUR)
   \<and> end_time (state_of (fst (check_availability_node locked_env locked_entering)))
       = Some ''15:00''
   \<and> response (state_of (fst (check_availability_node locked_env locked_entering)))
       = Some ''Error checking availability: credentials.json is missing''
   \<and> snd (check_availability_node locked_env locked_entering) = []
   \<and> snd (snd (run_agent_trace locked_env ''yes'' (Some known_state))) = []"
  by code_simp

text \<open>
  \<^bold>\<open>C7, amended.\<close> For every state that the edge from the Interpret step sends to
  the Availability Check with the intent \<^verbatim>\<open>book\<close>, whose date and start time are
  non-empty strings that \<^verbatim>\<open>strptime\<close> reads, with the format \<^verbatim>\<open>%Y-%m-%d %H:%M\<close>, as an
  instant \<open>start_dt\<close> whose following hour is still a datetime (it is not in the
  last hour of the year 9999): the step returns a state whose \<open>end_time\<close> is the
  clock time \<^verbatim>\<open>HH:MM\<close> of \<open>start_dt + 60 minutes\<close>, that is the minute of the day of
  \<open>start_dt\<close> plus 60, modulo 1440; when the service client can be built, the first
  call to the calendar is the free/busy query for exactly
  \<open>[start_dt, start_dt + 60 minutes)\<close> in UTC, and any further call is the
  free/busy query for 09:00 to 18:00 of that day, made to suggest other slots; when
  the client cannot be built, no call is made.
\<close>

theorem check_availability_node_book_slot:
  assumes "route_conversational s = CheckAvailability" and "intent s = Some ''book''"
    and "date s = Some d" and "d \<noteq> []" and "start_time s = Some t" and "t \<noteq> []"
    and "strptime FMT_DATE_TIME (d @ '' '' @ t) = Inr start_dt"
    and "dt_add start_dt HOUR = Inr end_dt"
  shows "end_dt = start_dt + 60 * MINUTE
     \<and> (\<exists>s'. fst (check_availability_node E s) = Return s' \<and>
              end_time s' = Some (strftime_HM (start_dt + 60 * MINUTE)))
     \<and> strftime_HM (start_dt + 60 * MINUTE)
         = fmt02d (((minute_of_day start_dt + 60) mod 1440) div 60) @ '':''
           @ fmt02d (((minute_of_day start_dt + 60) mod 1440) mod 60)
     \<and> (credentials E = None \<longrightarrow>
          (\<exists>rest. snd (check_availability_node E s)
                    = FreeBusyQuery (calendar_id s) start_dt (start_dt + 60 * MINUTE) # rest \<and>
             (\<forall>c\<in>set rest. c = FreeBusyQuery (calendar_id s)
                                  ((start_dt div DAY) * DAY + 9 * HOUR)
                                  ((start_dt div DAY) * DAY + 18 * HOUR))))
     \<and> (credentials E \<noteq> None \<longrightarrow> snd (check_availability_node E s) = [])"
proof -
  from assms(8) have e: "end_dt = start_dt + 60 * MINUTE"
    by (auto simp: dt_add_def Let_def HOUR_def split: if_splits)
  let ?s1 = "s\<lparr>end_time := Some (strftime_HM end_dt)\<rparr>"
  from route_conversational_entering [OF assms(1)] have "\<not> needs_more_info s" by simp
  then have node: "check_availability_node E s
      = (Return (fst (query_slot E ?s1 d t start_dt end_dt)),
         snd (query_slot E ?s1 d t start_dt end_dt))"
    using assms(2-8)
    by (simp add: check_availability_node_def truthy_def py_str_def Let_def
          split: prod.splits)
  have 1: "\<exists>s'. fst (check_availability_node E s) = Return s' \<and>
              end_time s' = Some (strftime_HM (start_dt + 60 * MINUTE))"
    using query_slot_end_time [of E ?s1 d t start_dt end_dt]
    by (simp add: node e)
  have 2: "strftime_HM (start_dt + 60 * MINUTE)
         = fmt02d (((minute_of_day start_dt + 60) mod 1440) div 60) @ '':''
           @ fmt02d (((minute_of_day start_dt + 60) mod 1440) mod 60)"
    by (simp only: strftime_HM_minute_of_day minute_of_day_after_hour)
  have 3: "(credentials E = None \<longrightarrow>
          (\<exists>rest. snd (check_availability_node E s)
                    = FreeBusyQuery (calendar_id s) start_dt (start_dt + 60 * MINUTE) # rest \<and>
             (\<forall>c\<in>set rest. c = FreeBusyQuery (calendar_id s)
                                  ((start_dt div DAY) * DAY + 9 * HOUR)
                                  ((start_dt div DAY) * DAY + 18 * HOUR))))
     \<and> (credentials E \<noteq> None \<longrightarrow> snd (check_availability_node E s) = [])"
    using query_slot_calls [of E ?s1 d t start_dt end_dt]
    by (simp add: node e)
  from e 1 2 3 show ?thesis by blast
qed

lemma demo_parse:
  "strptime FMT_DATE_TIME (''2025-06-30'' @ '' '' @ ''09:00'') = Inr (demo_day - 15 * HOUR)"
  by code_simp

lemma demo_end:
  "dt_add (demo_day - 15 * HOUR) HOUR = Inr (demo_day - 14 * HOUR)"
  by code_simp

theorem check_availability_node_book_slot_witness:
  "route_conversational known_state = CheckAvailability \<and> intent known_state = Some ''book''
   \<and> date known_state = Some ''2025-06-30'' \<and> start_time known_state = Some ''09:00''
   \<and> strptime FMT_DATE_TIME (''2025-06-30'' @ '' '' @ ''09:00'') = Inr (demo_day - 15 * HOUR)
   \<and> dt_add (demo_day - 15 * HOUR) HOUR = Inr (demo_day - 14 * HOUR)
   \<and> credentials demo_env = None
   \<and> (\<exists>s'. fst (check_availability_node demo_env known_state) = Return s' \<and>
            end_time s' = Some (strftime_HM (demo_day - 15 * HOUR + 60 * MINUTE)))
   \<and> strftime_HM (demo_day - 15 * HOUR + 60 * MINUTE) = ''10:00''
   \<and> (\<exists>rest. snd (check_availability_node demo_env known_state)
               = FreeBusyQuery (calendar_id known_state) (demo_day - 15 * HOUR)
                   (demo_day - 15 * HOUR + 60 * MINUTE) # rest)"
proof -
  have k: "route_conversational known_state = CheckAvailability"
    "intent known_state = Some ''book''"
    "date known_state = Some ''2025-06-30''" "start_time known_state = Some ''09:00''"
    by (simp_all add: route_conversational_def known_state_def initial_state_def)
  have ne: "''2025-06-30'' \<noteq> []" "''09:00'' \<noteq> []" by simp_all
  have c: "credentials demo_env = None" by (simp add: demo_env_def)
  have v: "strftime_HM (demo_day - 15 * HOUR + 60 * MINUTE) = ''10:00''" by code_simp
  from check_availability_node_book_slot [OF k(1) k(2) k(3) ne(1) k(4) ne(2) demo_parse
      demo_end, of demo_env] c
  have "(\<exists>s'. fst (check_availability_node demo_env known_state) = Return s' \<and>
            end_time s' = Some (strftime_HM (demo_day - 15 * HOUR + 60 * MINUTE)))
     \<and> (\<exists>rest. snd (check_availability_node demo_env known_state)
               = FreeBusyQuery (calendar_id known_state) (demo_day - 15 * HOUR)
                   (demo_day - 15 * HOUR + 60 * MINUTE) # rest)"
    by blast
  with k demo_parse demo_end c v show ?thesis by blast
qed

section \<open>The session endpoints\<close>

text \<open>
  \<^bold>\<open>C8.\<close> For a session identifier that is not a key of the store, \<^verbatim>\<open>GET\<close> and
  \<^verbatim>\<open>DELETE\<close> on \<^verbatim>\<open>/session/{id}\<close> both answer with the status 404 and the detail
  \<^verbatim>\<open>Session not found\<close>, and the store is returned as it was: no entry is created
  for the identifier.
\<close>

theorem unknown_session_is_not_found:
  assumes "Some session_id \<notin> dom sess"
  shows "get_session sess session_id = (Inl (HTTPException 404 ''Session not found''), sess)
         \<and> delete_session sess session_id
             = (Inl (HTTPException 404 ''Session not found''), sess)
         \<and> Some session_id \<notin> dom (snd (get_session sess session_id))
         \<and> Some session_id \<notin> dom (snd (delete_session sess session_id))"
  using assms by (auto simp: get_session_def delete_session_def dom_def)

theorem unknown_session_is_not_found_witness:
  "Some ''nobody'' \<notin> dom [Some ''default'' \<mapsto> known_state]
   \<and> get_session [Some ''default'' \<mapsto> known_state] ''nobody''
       = (Inl (HTTPException 404 ''Session not found''), [Some ''default'' \<mapsto> known_state])
   \<and> delete_session [Some ''default'' \<mapsto> known_state] ''nobody''
       = (Inl (HTTPException 404 ''Session not found''), [Some ''default'' \<mapsto> known_state])"
proof -
  have h: "Some ''nobody'' \<notin> dom [Some ''default'' \<mapsto> known_state]" by simp
  from unknown_session_is_not_found [OF h] h show ?thesis by blast
qed

section \<open>State carried from turn to turn\<close>

lemma stale_outage_run:
  "fst (snd (run_agent_trace outage_env ''yes'' (Some checked_state)))
     = [Conversational, CheckAvailability, Booking]
   \<and> snd (snd (run_agent_trace outage_env ''yes'' (Some checked_state)))
     = [FreeBusyQuery (Some ''aryanrai97861@gmail.com'') (demo_day + 14 * HOUR)
          (demo_day + 15 * HOUR),
        EventsInsert (Some ''aryanrai97861@gmail.com'')
          \<lparr>eb_summary = Some ''Standup'',
           eb_start = demo_day + 14 * HOUR, eb_start_timeZone = ''UTC'',
           eb_end = demo_day + 15 * HOUR, eb_end_timeZone = ''UTC'',
           eb_description = None, eb_attendees = Some [''a@b.com'']\<rparr>]
   \<and> freebusy_query outage_env (Some ''aryanrai97861@gmail.com'') (demo_day + 14 * HOUR)
        (demo_day + 15 * HOUR) = Inl (ServiceError ''backend unavailable'')
   \<and> booking_confirmed (run_agent outage_env ''yes'' (Some checked_state))
   \<and> date (run_agent outage_env ''yes'' (Some checked_state)) = Some ''2025-07-01''
   \<and> start_time (run_agent outage_env ''yes'' (Some checked_state)) = Some ''14:00''"
  by code_simp

lemma stale_vague_run:
  "fst (snd (run_agent_trace vague_env ''yes'' (Some checked_state)))
     = [Conversational, CheckAvailability, Booking]
   \<and> snd (snd (run_agent_trace vague_env ''yes'' (Some checked_state))) = []"
  by code_simp

lemma checked_state_fields:
  "availability checked_state = Some True"
  "date checked_state = Some ''2025-06-30''"
  "start_time checked_state = Some ''09:00''"
  by (simp_all add: checked_state_def known_state_def initial_state_def)

text \<open>
  \<^bold>\<open>C9.\<close> On a continuing turn \<^verbatim>\<open>run_agent\<close> invokes the graph on the previous
  state with three changes only: \<open>user_message\<close> is the new message, the new user
  message is appended to \<open>history\<close>, and \<open>needs_more_info\<close> is false. Every other
  field, among them \<open>availability\<close>, \<open>booking_confirmed\<close>, \<open>suggestions\<close>, \<open>date\<close> and
  \<open>start_time\<close>, enters the turn with the value the previous turn left. So an
  \<open>availability\<close> that is true persists, and a later turn with the intent \<^verbatim>\<open>book\<close>
  can reach the Booking step without a fresh answer about availability: in the
  first scenario the state says that 2025-06-30 at 09:00 is free, the provider now
  asks for 2025-07-01 at 14:00, the free/busy query of the turn fails, and the
  event is inserted all the same; in the second the date of the turn cannot be
  parsed, no query is made at all, and the Booking step still runs.
\<close>

theorem run_agent_carries_state_over:
  "prepare_state message (Some s)
     = s\<lparr>user_message := message,
         history := Some (history_of s @ [\<lparr>role = ''user'', content = Some message\<rparr>]),
         needs_more_info := False\<rparr>
   \<and> run_agent_trace E message (Some s)
     = (case agent_invoke E (prepare_state message (Some s)) of
          (Return result, visited, calls) \<Rightarrow> (result, visited, calls)
        | (Raise e s', visited, calls) \<Rightarrow>
            (s'\<lparr>response := Some (''Sorry, I encountered an error: '' @ exn_str e)\<rparr>,
             visited, calls))
   \<and> availability (prepare_state message (Some s)) = availability s
   \<and> booking_confirmed (prepare_state message (Some s)) = booking_confirmed s
   \<and> suggestions (prepare_state message (Some s)) = suggestions s
   \<and> date (prepare_state message (Some s)) = date s
   \<and> start_time (prepare_state message (Some s)) = start_time s
   \<and> end_time (prepare_state message (Some s)) = end_time s
   \<and> intent (prepare_state message (Some s)) = intent s
   \<and> response (prepare_state message (Some s)) = response s
   \<and> calendar_id (prepare_state message (Some s)) = calendar_id s
   \<and> summary (prepare_state message (Some s)) = summary s
   \<and> description (prepare_state message (Some s)) = description s
   \<and> attendees (prepare_state message (Some s)) = attendees s
   \<and> availability (prepare_state ''yes'' (Some checked_state)) = Some True
   \<and> date (prepare_state ''yes'' (Some checked_state)) = Some ''2025-06-30''
   \<and> start_time (prepare_state ''yes'' (Some checked_state)) = Some ''09:00''
   \<and> fst (snd (run_agent_trace outage_env ''yes'' (Some checked_state)))
       = [Conversational, CheckAvailability, Booking]
   \<and> freebusy_query outage_env (Some ''aryanrai97861@gmail.com'') (demo_day + 14 * HOUR)
        (demo_day + 15 * HOUR) = Inl (ServiceError ''backend unavailable'')
   \<and> list_ex is_insert (snd (snd (run_agent_trace outage_env ''yes'' (Some checked_state))))
   \<and> booking_confirmed (run_agent outage_env ''yes'' (Some checked_state))
   \<and> date (run_agent outage_env ''yes'' (Some checked_state)) = Some ''2025-07-01''
   \<and> start_time (run_agent outage_env ''yes'' (Some checked_state)) = Some ''14:00''
   \<and> fst (snd (run_agent_trace vague_env ''yes'' (Some checked_state)))
       = [Conversational, CheckAvailability, Booking]
   \<and> snd (snd (run_agent_trace vague_env ''yes'' (Some checked_state))) = []"
proof -
  have frame: "prepare_state message (Some s)
     = s\<lparr>user_message := message,
         history := Some (history_of s @ [\<lparr>role = ''user'', content = Some message\<rparr>]),
         needs_more_info := False\<rparr>"
    by (simp add: prepare_state_def)
  have run: "run_agent_trace E message (Some s)
     = (case agent_invoke E (prepare_state message (Some s)) of
          (Return result, visited, calls) \<Rightarrow> (result, visited, calls)
        | (Raise e s', visited, calls) \<Rightarrow>
            (s'\<lparr>response := Some (''Sorry, I encountered an error: '' @ exn_str e)\<rparr>,
             visited, calls))"
    by (simp add: run_agent_trace_def)
  have fields: "availability (prepare_state message (Some s)) = availability s
   \<and> booking_confirmed (prepare_state message (Some s)) = booking_confirmed s
   \<and> suggestions (prepare_state message (Some s)) = suggestions s
   \<and> date (prepare_state message (Some s)) = date s
   \<and> start_time (prepare_state message (Some s)) = start_time s
   \<and> end_time (prepare_state message (Some s)) = end_time s
   \<and> intent (prepare_state message (Some s)) = intent s
   \<and> response (prepare_state message (Some s)) = response s
   \<and> calendar_id (prepare_state message (Some s)) = calendar_id s
   \<and> summary (prepare_state message (Some s)) = summary s
   \<and> description (prepare_state message (Some s)) = description s
   \<and> attendees (prepare_state message (Some s)) = attendees s"
    by (simp add: prepare_state_def)
  have stale: "availability (prepare_state ''yes'' (Some checked_state)) = Some True
   \<and> date (prepare_state ''yes'' (Some checked_state)) = Some ''2025-06-30''
   \<and> start_time (prepare_state ''yes'' (Some checked_state)) = Some ''09:00''"
    by (simp add: prepare_state_def checked_state_fields)
  have ins: "list_ex is_insert
               (snd (snd (run_agent_trace outage_env ''yes'' (Some checked_state))))"
    using stale_outage_run by simp
  from frame run fields stale ins stale_outage_run stale_vague_run show ?thesis
    by blast
qed

theorem run_agent_carries_state_over_witness:
  "prepare_state ''yes'' (Some checked_state)
     = checked_state\<lparr>user_message := ''yes'',
         history := Some (history_of checked_state
                          @ [\<lparr>role = ''user'', content = Some ''yes''\<rparr>]),
         needs_more_info := False\<rparr>
   \<and> availability (prepare_state ''yes'' (Some checked_state)) = availability checked_state
   \<and> availability (prepare_state ''yes'' (Some checked_state)) = Some True
   \<and> fst (snd (run_agent_trace outage_env ''yes'' (Some checked_state)))
       = [Conversational, CheckAvailability, Booking]
   \<and> list_ex is_insert (snd (snd (run_agent_trace outage_env ''yes'' (Some checked_state))))
   \<and> booking_confirmed (run_agent outage_env ''yes'' (Some checked_state))"
  using run_agent_carries_state_over [of "''yes''" checked_state outage_env] by blast

section \<open>The default session\<close>

lemma query_slot_history:
  "history (fst (query_slot E s ds ts a b)) = history s"
  by (auto simp: query_slot_def Let_def split: sum.splits prod.splits)

lemma check_day_history:
  "history (state_of (fst (check_day E s))) = history s"
  by (auto simp: check_day_def Let_def split: sum.splits prod.splits)

lemma check_availability_node_history:
  "history (state_of (fst (check_availability_node E s))) = history s"
proof -
  have q: "\<And>s' ds ts a b r cs. query_slot E s' ds ts a b = (r, cs) \<Longrightarrow>
             history r = history s'"
    using query_slot_history by (metis fst_conv)
  show ?thesis
    using check_day_history [of E s]
    by (auto simp: check_availability_node_def Let_def split: sum.splits prod.splits dest: q)
qed

lemma booking_node_history:
  "history (state_of (fst (booking_node E s))) = history s"
  by (auto simp: booking_node_def Let_def split: sum.splits prod.splits)

lemma merge_reply_history:
  "history_of (merge_reply g s)
     = history_of s @ [\<lparr>role = ''assistant'', content = dict_get_default g ''reply''
         (''Sorry, I didn'' @ [CHR 0x27] @ ''t understand that.'')\<rparr>]"
  by (simp add: merge_reply_def Let_def history_of_def)

lemma conversational_node_history:
  "\<exists>new. history_of (state_of (fst (conversational_node E s))) = history_of s @ new"
proof (cases "gemini E (history_of s)")
  case (Inl e)
  then show ?thesis by (simp add: conversational_node_provider_failure)
next
  case (Inr g)
  have "history (state_of (fst (conversational_node E s))) = history (merge_reply g s)"
    using Inr
    by (simp add: conversational_node_def Let_def missing_info_fields
          split: sum.splits prod.splits)
  then have "history_of (state_of (fst (conversational_node E s)))
               = history_of (merge_reply g s)"
    by (simp add: history_of_def)
  then show ?thesis by (simp add: merge_reply_history)
qed

lemma history_of_cong: "history a = history b \<Longrightarrow> history_of a = history_of b"
  by (simp add: history_of_def)

lemma agent_invoke_history:
  "\<exists>new. history_of (state_of (fst (agent_invoke E s))) = history_of s @ new"
proof -
  obtain o1 c1 where conv: "conversational_node E s = (o1, c1)"
    by (cases "conversational_node E s")
  from conversational_node_history [of E s] conv
  obtain new where h1: "history_of (state_of o1) = history_of s @ new" by auto
  show ?thesis
  proof (cases o1)
    case (Raise e s1)
    with conv have "fst (agent_invoke E s) = o1" by (simp add: agent_invoke_def)
    with h1 show ?thesis by simp
  next
    case (Return s1)
    with h1 have hs1: "history_of s1 = history_of s @ new" by simp
    obtain o2 c2 where chk: "check_availability_node E s1 = (o2, c2)"
      by (cases "check_availability_node E s1")
    have "history (state_of o2) = history s1"
      using check_availability_node_history [of E s1] chk by simp
    then have h2: "history_of (state_of o2) = history_of s1"
      by (rule history_of_cong)
    obtain o3 c3 where bk: "booking_node E (state_of o2) = (o3, c3)"
      by (cases "booking_node E (state_of o2)")
    have "history (state_of o3) = history (state_of o2)"
      using booking_node_history [of E "state_of o2"] bk by simp
    then have h3: "history_of (state_of o3) = history_of (state_of o2)"
      by (rule history_of_cong)
    have "fst (agent_invoke E s) = o1 \<or> fst (agent_invoke E s) = o2
            \<or> fst (agent_invoke E s) = o3"
      using conv Return chk bk
      by (cases o2) (simp_all add: agent_invoke_def)
    then have "history_of (state_of (fst (agent_invoke E s))) = history_of s @ new"
      using h1 h2 h3 hs1 by (elim disjE) (simp_all only:)
    then show ?thesis by blast
  qed
qed

lemma run_agent_history:
  "\<exists>new. history_of (run_agent E message (Some s))
           = history_of s @ \<lparr>role = ''user'', content = Some message\<rparr> # new"
proof -
  let ?p = "prepare_state message (Some s)"
  from agent_invoke_history [of E ?p]
  obtain new where h: "history_of (state_of (fst (agent_invoke E ?p))) = history_of ?p @ new"
    by blast
  have p: "history_of ?p = history_of s @ [\<lparr>role = ''user'', content = Some message\<rparr>]"
    by (simp add: prepare_state_def history_of_def)
  obtain out visited calls where inv: "agent_invoke E ?p = (out, visited, calls)"
    by (cases "agent_invoke E ?p")
  have "history_of (run_agent E message (Some s)) = history_of (state_of out)"
    using inv by (cases out) (simp_all add: run_agent_def run_agent_trace_def history_of_def)
  with h inv p show ?thesis by simp
qed

text \<open>
  \<^bold>\<open>C10.\<close> A body of \<^verbatim>\<open>POST /chat\<close> that omits \<^verbatim>\<open>session_id\<close> is handled under the
  key \<^verbatim>\<open>default\<close>. Of two such requests, whoever sends them, the first stores the
  state of its turn under that key, and the second runs its turn on that very state
  and stores the result under the same key: the date, start time and attendees of
  the first enter the second turn, the transcript of the second extends the
  transcript of the first by the second message, and no other key of the store is
  touched.
\<close>

theorem chat_default_session_is_shared:
  assumes "body_session_id b1 = None" and "body_session_id b2 = None"
  shows "req_session_id (parse_ChatRequest b1) = Some ''default''
     \<and> req_session_id (parse_ChatRequest b2) = Some ''default''
     \<and> (\<exists>st1.
          snd (chat_endpoint E1 sess (parse_ChatRequest b1)) (Some ''default'') = Some st1 \<and>
          snd (chat_endpoint E2 (snd (chat_endpoint E1 sess (parse_ChatRequest b1)))
                 (parse_ChatRequest b2)) (Some ''default'')
            = Some (run_agent E2 (body_message b2) (Some st1)) \<and>
          date (prepare_state (body_message b2) (Some st1)) = date st1 \<and>
          start_time (prepare_state (body_message b2) (Some st1)) = start_time st1 \<and>
          attendees (prepare_state (body_message b2) (Some st1)) = attendees st1 \<and>
          (\<exists>new. history_of (run_agent E2 (body_message b2) (Some st1))
                   = history_of st1 @ \<lparr>role = ''user'', content = Some (body_message b2)\<rparr>
                       # new))
     \<and> (\<forall>k. k \<noteq> Some ''default'' \<longrightarrow>
           snd (chat_endpoint E2 (snd (chat_endpoint E1 sess (parse_ChatRequest b1)))
                  (parse_ChatRequest b2)) k = sess k)"
proof -
  let ?r1 = "parse_ChatRequest b1" and ?r2 = "parse_ChatRequest b2"
  have id1: "req_session_id ?r1 = Some ''default''"
    and id2: "req_session_id ?r2 = Some ''default''"
    using assms by (simp_all add: parse_ChatRequest_def)
  have m2: "req_message ?r2 = body_message b2"
    by (simp add: parse_ChatRequest_def)
  have store: "\<And>E sess r. snd (chat_endpoint E sess r)
      = sess(req_session_id r \<mapsto> run_agent E (req_message r)
           (Some (case sess (req_session_id r) of
                    Some stored \<Rightarrow> stored
                  | None \<Rightarrow> (initial_state (req_message r))
                             \<lparr>calendar_id := req_calendar_id r\<rparr>)))"
    by (simp add: chat_endpoint_def Let_def)
  obtain st1 where st1: "snd (chat_endpoint E1 sess ?r1) (Some ''default'') = Some st1"
    by (simp add: store id1)
  have second: "snd (chat_endpoint E2 (snd (chat_endpoint E1 sess ?r1)) ?r2) (Some ''default'')
            = Some (run_agent E2 (body_message b2) (Some st1))"
    by (simp add: store [of E2] id2 m2 st1)
  have others: "\<forall>k. k \<noteq> Some ''default'' \<longrightarrow>
           snd (chat_endpoint E2 (snd (chat_endpoint E1 sess ?r1)) ?r2) k = sess k"
    by (simp add: store id1 id2)
  have carry: "date (prepare_state (body_message b2) (Some st1)) = date st1 \<and>
          start_time (prepare_state (body_message b2) (Some st1)) = start_time st1 \<and>
          attendees (prepare_state (body_message b2) (Some st1)) = attendees st1"
    by (simp add: prepare_state_def)
  from id1 id2 st1 second others carry run_agent_history [of E2 "body_message b2" st1]
  show ?thesis by blast
qed

theorem chat_default_session_is_shared_witness:
  "body_session_id first_body = None \<and> body_session_id second_body = None
   \<and> req_session_id (parse_ChatRequest first_body) = Some ''default''
   \<and> req_session_id (parse_ChatRequest second_body) = Some ''default''
   \<and> (\<exists>st1.
        snd (chat_endpoint demo_env Map.empty (parse_ChatRequest first_body)) (Some ''default'')
          = Some st1 \<and>
        snd (chat_endpoint null_env
               (snd (chat_endpoint demo_env Map.empty (parse_ChatRequest first_body)))
               (parse_ChatRequest second_body)) (Some ''default'')
          = Some (run_agent null_env (body_message second_body) (Some st1)))"
proof -
  have h: "body_session_id first_body = None" "body_session_id second_body = None"
    by (simp_all add: first_body_def second_body_def)
  from chat_default_session_is_shared [OF h, of demo_env Map.empty null_env] h
  show ?thesis by blast
qed


end
